theory Spec2Isabelle
  imports Complex_Main
begin

section \<open>The pair-correlation constraints of fullrmc\<close>

text \<open>
  This theory embeds the transactional core of
  \<^verbatim>\<open>Constraints/PairDistributionConstraints.py\<close> and
  \<^verbatim>\<open>Constraints/StructureFactorConstraints.py\<close>: the observable transforms
  (\<^verbatim>\<open>__get_total_Gr\<close>, \<^verbatim>\<open>__get_total_Sq\<close>, \<^verbatim>\<open>_get_Sq_from_Gr\<close>,
  \<^verbatim>\<open>_get_constraint_value\<close>), the standard error, and the move and amputation
  life cycle (\<^verbatim>\<open>compute_before_move\<close>, \<^verbatim>\<open>compute_after_move\<close>,
  \<^verbatim>\<open>accept_move\<close>, \<^verbatim>\<open>reject_move\<close>, \<^verbatim>\<open>compute_as_if_amputated\<close>,
  \<^verbatim>\<open>accept_amputation\<close>, \<^verbatim>\<open>reject_amputation\<close>).

  Conventions.
  \<^item> numpy floating point numbers are idealised as \<open>real\<close>; a cast
    \<^verbatim>\<open>FLOAT_TYPE(x)\<close> is the identity. Atom counts are Python integers, \<open>int\<close>.
    Division by zero, which numpy answers with \<^verbatim>\<open>inf\<close> or \<^verbatim>\<open>nan\<close> and a
    warning, is HOL's total division; no theorem below relies on its value.
    One operation keeps its rounding: the addition of 1 with which
    \<^verbatim>\<open>_get_Sq_from_Gr\<close> ends, since the relation between the plain and the reduced
    structure factor is a statement about that very addition. There the result is
    rounded to the array type by the function \<open>FLOAT_TYPE\<close> of the environment.
  \<^item> a one-dimensional array is a list, a three-dimensional histogram
    \<^verbatim>\<open>h[e_i, e_j, bin]\<close> a list of lists of lists. Element-wise arithmetic is
    \<open>map2\<close>: every histogram of one configuration comes from the histogram kernel
    with the shape (numberOfElements, numberOfElements, histSize), so the operands
    have equal shapes and numpy neither broadcasts nor raises.
  \<^item> a Python exception is a value \<open>Inl e\<close> of the sum type \<open>error + 'a\<close>.
  \<^item> a Python dictionary is a map \<open>'k \<rightharpoonup> 'v\<close>; \<^verbatim>\<open>None\<close> in an optional
    attribute is \<open>None\<close>.
  \<^item> the two classes share their life cycle word for word and differ in the
    transform only; the class of an instance is the field \<open>cls\<close> of the constraint
    record and the transform dispatches on it, as Python's method lookup does.
\<close>

subsection \<open>Errors and arrays\<close>

datatype error =
    TypeError | IndexError | ValueError | KeyError | KernelError | NumericDegeneracy

type_synonym vec = "real list"
type_synonym arr3 = "real list list list"
type_synonym coord = "real \<times> real \<times> real"

definition vadd :: "vec \<Rightarrow> vec \<Rightarrow> vec" where
  "vadd a b = map2 (+) a b"

definition vsub :: "vec \<Rightarrow> vec \<Rightarrow> vec" where
  "vsub a b = map2 (-) a b"

definition vmul :: "vec \<Rightarrow> vec \<Rightarrow> vec" where
  "vmul a b = map2 (*) a b"

definition vdiv :: "vec \<Rightarrow> vec \<Rightarrow> vec" where
  "vdiv a b = map2 (/) a b"

definition smul :: "real \<Rightarrow> vec \<Rightarrow> vec" where
  "smul k a = map (\<lambda>x. k * x) a"

definition sdiv :: "vec \<Rightarrow> real \<Rightarrow> vec" where
  "sdiv a k = map (\<lambda>x. x / k) a"

definition zeros :: "nat \<Rightarrow> vec" where
  "zeros n = replicate n 0"

definition arr3_sub :: "arr3 \<Rightarrow> arr3 \<Rightarrow> arr3" where
  "arr3_sub a b = map2 (map2 vsub) a b"

definition arr3_add :: "arr3 \<Rightarrow> arr3 \<Rightarrow> arr3" where
  "arr3_add a b = map2 (map2 vadd) a b"

text \<open>\<^verbatim>\<open>a[i, j, :]\<close>: numpy raises IndexError outside the shape.\<close>

definition get2 :: "arr3 \<Rightarrow> nat \<Rightarrow> nat \<Rightarrow> error + vec" where
  "get2 a i j =
     (if i < length a then
        (if j < length (a ! i) then Inr (a ! i ! j) else Inl IndexError)
      else Inl IndexError)"

text \<open>\<^verbatim>\<open>xs.index(x)\<close>: the first position of \<open>x\<close>, ValueError when absent.\<close>

fun index_of :: "'a list \<Rightarrow> 'a \<Rightarrow> error + nat" where
  "index_of [] x = Inl ValueError"
| "index_of (y # ys) x =
     (if y = x then Inr 0
      else (case index_of ys x of Inl e \<Rightarrow> Inl e | Inr n \<Rightarrow> Inr (Suc n)))"

text \<open>
  \<^verbatim>\<open>a[indexes]\<close> with an index array: the selected rows, IndexError when an
  index is outside the array.
\<close>

fun take_rows :: "'a list \<Rightarrow> nat list \<Rightarrow> error + 'a list" where
  "take_rows xs [] = Inr []"
| "take_rows xs (i # is) =
     (if i < length xs then
        (case take_rows xs is of Inl e \<Rightarrow> Inl e | Inr ys \<Rightarrow> Inr (xs ! i # ys))
      else Inl IndexError)"

text \<open>
  \<^verbatim>\<open>a[indexes] = values\<close> with one row of values per index: the rows are
  written in order, so the last value wins at a repeated index. numpy checks the
  indexes and the shapes before it writes anything.
\<close>

fun put_rows :: "'a list \<Rightarrow> nat list \<Rightarrow> 'a list \<Rightarrow> 'a list" where
  "put_rows xs (i # is) (v # vs) = put_rows (xs[i := v]) is vs"
| "put_rows xs [] vs = xs"
| "put_rows xs is [] = xs"

definition assign_rows :: "'a list \<Rightarrow> nat list \<Rightarrow> 'a list \<Rightarrow> error + 'a list" where
  "assign_rows xs is vs =
     (if \<not> list_all (\<lambda>i. i < length xs) is then Inl IndexError
      else if length vs \<noteq> length is then Inl ValueError
      else Inr (put_rows xs is vs))"

text \<open>
  \<^verbatim>\<open>np.convolve(a, v, 'same')\<close>: numpy swaps the operands when \<open>v\<close> is the longer
  one, raises ValueError on an empty operand, and returns the centred part of the
  full convolution, as long as the longer operand.
\<close>

definition conv_full :: "vec \<Rightarrow> vec \<Rightarrow> vec" where
  "conv_full a v =
     map (\<lambda>k. sum_list (map (\<lambda>i. if i \<le> k \<and> k - i < length v
                                     then a ! i * v ! (k - i) else 0)
                             [0 ..< length a]))
         [0 ..< length a + length v - 1]"

definition convolve_same :: "vec \<Rightarrow> vec \<Rightarrow> error + vec" where
  "convolve_same a v =
     (if a = [] \<or> v = [] then Inl ValueError
      else if length a < length v
           then Inr (take (length v) (drop ((length a - 1) div 2) (conv_full v a)))
           else Inr (take (length a) (drop ((length v - 1) div 2) (conv_full a v))))"

subsection \<open>Rounding to single precision\<close>

text \<open>
  The value numpy's \<^verbatim>\<open>float32\<close> arithmetic returns for an exact result \<open>x\<close>: the
  nearest number with a 24 bit significand, ties to the even significand, with the
  exponent range of the format (normal and subnormal numbers). Overflow to infinity is
  not represented. \<open>binade n x\<close> is the exponent \<open>e\<close> with \<open>2\<^sup>e \<le> x < 2\<^sup>e\<^sup>+\<^sup>1\<close>, found in
  at most \<open>n\<close> doublings or halvings.
\<close>

fun binade :: "nat \<Rightarrow> real \<Rightarrow> int" where
  "binade 0 x = 0"
| "binade (Suc n) x =
     (if 2 \<le> x then binade n (x / 2) + 1
      else if x < 1 then binade n (2 * x) - 1
      else 0)"

definition round_half_even :: "real \<Rightarrow> int" where
  "round_half_even x =
     (let f = \<lfloor>x\<rfloor>; r = x - real_of_int f
      in if r < 1/2 then f
         else if 1/2 < r then f + 1
         else if even f then f else f + 1)"

definition float32 :: "real \<Rightarrow> real" where
  "float32 x =
     (let e = max (- 126) (min 127 (binade 300 \<bar>x\<bar>));
          q = (if 23 \<le> e then 2 ^ nat (e - 23) else 1 / 2 ^ nat (23 - e))
      in real_of_int (round_half_even (x / q)) * q)"

subsection \<open>The engine, the environment and the constraint\<close>

text \<open>A histogram pair, the dictionary \<^verbatim>\<open>{"intra": ..., "inter": ...}\<close>.\<close>

record pairhist =
  intra :: arr3
  inter :: arr3

text \<open>
  The attributes of \<^verbatim>\<open>self.engine\<close> that the two files read or write.
  \<open>generated\<close> is the number of moves generated so far, the counter against which the
  scale factor's adjustment frequency is counted (``the frequency in number of
  generated moves of finding the best scale factor'').
\<close>

record engine =
  boxCoordinates :: "coord list"
  moleculesIndex :: "int list"
  elementsIndex :: "int list"
  elements :: "string list"
  allElements :: "string list"
  numberOfAtomsPerElement :: "string \<rightharpoonup> int"
  numberOfAtoms :: int
  volume :: real
  numberDensity :: real
  allowFittingScaleFactor :: bool
  generated :: nat

text \<open>
  What is imported from outside the two files and taken as a parameter: the constant
  \<^verbatim>\<open>PI\<close> and the array type \<^verbatim>\<open>FLOAT_TYPE\<close> of \<^verbatim>\<open>fullrmc.Globals\<close>, the two
  compiled histogram kernels of \<^verbatim>\<open>fullrmc.Core.pairs_histograms\<close> (their geometry
  and binning arguments are fixed per configuration and sit inside the functions; either
  may raise), and \<^verbatim>\<open>get_normalized_weighting\<close> of pdbParser. \<open>FLOAT_TYPE\<close> is the
  rounding of an exact result to the array type; fullrmc sets the type to
  \<^verbatim>\<open>np.float32\<close>, the function \<open>float32\<close> above.
\<close>

record env =
  PI :: real
  FLOAT_TYPE :: "real \<Rightarrow> real"
  multiple_pairs_histograms_coords ::
    "nat list \<Rightarrow> coord list \<Rightarrow> int list \<Rightarrow> int list \<Rightarrow> error + (arr3 \<times> arr3)"
  full_pairs_histograms_coords ::
    "coord list \<Rightarrow> int list \<Rightarrow> int list \<Rightarrow> error + (arr3 \<times> arr3)"
  get_normalized_weighting ::
    "(string \<rightharpoonup> int) \<Rightarrow> (string \<rightharpoonup> real) \<Rightarrow> error + (string \<rightharpoonup> real)"

datatype cls =
    PairDistributionConstraint
  | StructureFactorConstraint
  | ReducedStructureFactorConstraint

text \<open>
  The attributes of a constraint instance. \<open>experimentalPDF\<close> is
  \<^verbatim>\<open>__experimentalPDF\<close> of the pair distribution class and \<^verbatim>\<open>__experimentalSF\<close>
  of the structure factor classes; \<open>shapeArray\<close> exists in the pair distribution
  class only and \<open>Gr2SqMatrix\<close> (one row per shell, one column per reciprocal
  sample point) in the structure factor classes only.
\<close>

record constraint =
  cls :: cls
  data :: "pairhist option"
  activeAtomsDataBeforeMove :: "pairhist option"
  activeAtomsDataAfterMove :: "pairhist option"
  standardError :: "real option"
  afterMoveStandardError :: "real option"
  amputationData :: "(pairhist \<times> (string \<rightharpoonup> real)) option"
  amputationStandardError :: "real option"
  scaleFactor :: real
  fittedScaleFactor :: real
  adjustScaleFactorFrequency :: nat
  adjustScaleFactorMinimum :: real
  adjustScaleFactorMaximum :: real
  weightingScheme :: "string \<rightharpoonup> real"
  elementsWeight :: "string \<rightharpoonup> real"
  elementsPairs :: "(string \<times> string) list"
  histogramSize :: nat
  shellCenters :: vec
  shellVolumes :: vec
  experimentalPDF :: vec
  usedDataWeights :: "vec option"
  shapeArray :: "vec option"
  windowFunction :: "vec option"
  Gr2SqMatrix :: "real list list"

subsection \<open>From G(r) to S(q)\<close>

text \<open>
  \<^verbatim>\<open>np.sum(Gr.reshape((-1,1))*M, axis=0)\<close>: row \<open>i\<close> of the matrix is scaled by
  \<open>Gr[i]\<close> and the rows are added up; the result has one entry per reciprocal
  sample point, that is per experimental data point.
\<close>

definition sum_axis0 :: "nat \<Rightarrow> real list list \<Rightarrow> vec" where
  "sum_axis0 m rows = foldl vadd (zeros m) rows"

definition Gr_dot_matrix :: "constraint \<Rightarrow> vec \<Rightarrow> vec" where
  "Gr_dot_matrix C Gr =
     sum_axis0 (length (experimentalPDF C)) (map2 smul Gr (Gr2SqMatrix C))"

text \<open>
  \<^verbatim>\<open>StructureFactorConstraint._get_Sq_from_Gr\<close> adds 1 to every entry of the sum,
  in the arithmetic of the array type; \<^verbatim>\<open>ReducedStructureFactorConstraint._get_Sq_from_Gr\<close>
  overrides it and returns the sum. The subclass reads the matrix through the property
  \<^verbatim>\<open>Gr2SqMatrix\<close>, which returns the same attribute.
\<close>

definition get_Sq_from_Gr :: "env \<Rightarrow> cls \<Rightarrow> constraint \<Rightarrow> vec \<Rightarrow> vec" where
  "get_Sq_from_Gr V k C Gr =
     (case k of
        ReducedStructureFactorConstraint \<Rightarrow> Gr_dot_matrix C Gr
      | _ \<Rightarrow> map (\<lambda>s. FLOAT_TYPE V (s + 1)) (Gr_dot_matrix C Gr))"

subsection \<open>Attribute setters of the base class\<close>

text \<open>
  Modelled from the spec: the setters the two classes inherit from
  \<^verbatim>\<open>fullrmc.Core.Constraint\<close> (\<^verbatim>\<open>set_data\<close>,
  \<^verbatim>\<open>set_active_atoms_data_before_move\<close>, \<^verbatim>\<open>set_active_atoms_data_after_move\<close>,
  \<^verbatim>\<open>set_standard_error\<close>, \<^verbatim>\<open>set_after_move_standard_error\<close>,
  \<^verbatim>\<open>set_amputation_data\<close>, \<^verbatim>\<open>set_amputation_standard_error\<close>,
  \<^verbatim>\<open>_set_fitted_scale_factor_value\<close>, \<^verbatim>\<open>_set_adjust_scale_factor_frequency\<close>)
  are not in the two files. Each stores its argument in the attribute it names: the
  spec's commit ``adopts'' the histogram, the staged standard error and the newly fitted
  scale factor, and its discard ``clears'' the deltas.
\<close>

definition set_data :: "pairhist option \<Rightarrow> constraint \<Rightarrow> constraint" where
  "set_data v C = C\<lparr>data := v\<rparr>"

definition set_active_atoms_data_before_move ::
    "pairhist option \<Rightarrow> constraint \<Rightarrow> constraint" where
  "set_active_atoms_data_before_move v C = C\<lparr>activeAtomsDataBeforeMove := v\<rparr>"

definition set_active_atoms_data_after_move ::
    "pairhist option \<Rightarrow> constraint \<Rightarrow> constraint" where
  "set_active_atoms_data_after_move v C = C\<lparr>activeAtomsDataAfterMove := v\<rparr>"

definition set_standard_error :: "real option \<Rightarrow> constraint \<Rightarrow> constraint" where
  "set_standard_error v C = C\<lparr>standardError := v\<rparr>"

definition set_after_move_standard_error ::
    "real option \<Rightarrow> constraint \<Rightarrow> constraint" where
  "set_after_move_standard_error v C = C\<lparr>afterMoveStandardError := v\<rparr>"

definition set_amputation_data ::
    "(pairhist \<times> (string \<rightharpoonup> real)) option \<Rightarrow> constraint \<Rightarrow> constraint" where
  "set_amputation_data v C = C\<lparr>amputationData := v\<rparr>"

definition set_amputation_standard_error ::
    "real option \<Rightarrow> constraint \<Rightarrow> constraint" where
  "set_amputation_standard_error v C = C\<lparr>amputationStandardError := v\<rparr>"

definition set_fitted_scale_factor_value :: "real \<Rightarrow> constraint \<Rightarrow> constraint" where
  "set_fitted_scale_factor_value v C = C\<lparr>scaleFactor := v\<rparr>"

definition set_adjust_scale_factor_frequency :: "nat \<Rightarrow> constraint \<Rightarrow> constraint" where
  "set_adjust_scale_factor_frequency v C = C\<lparr>adjustScaleFactorFrequency := v\<rparr>"

lemmas setters =
  set_data_def set_active_atoms_data_before_move_def
  set_active_atoms_data_after_move_def set_standard_error_def
  set_after_move_standard_error_def set_amputation_data_def
  set_amputation_standard_error_def set_fitted_scale_factor_value_def
  set_adjust_scale_factor_frequency_def

subsection \<open>The scale factor\<close>

text \<open>
  Modelled from the spec: \<^verbatim>\<open>get_adjusted_scale_factor\<close> of the base class
  \<^verbatim>\<open>ExperimentalConstraint\<close> is not in the two files. The spec: ``Fit a scale
  factor: analytic least-squares minimizer \<open>s = \<Sum> W\<^sub>i Y\<^sub>i F\<^sub>i / \<Sum> W\<^sub>i F\<^sub>i\<^sup>2\<close> clamped to
  [min,max], applied only when the governing frequency counter indicates a refit is due
  this step; otherwise the previously accepted scale factor is reused unchanged'';
  ``frequency = 0 means fixed (never refit)''; a zero denominator in the fit is the
  fatal error NumericDegeneracy. Without data weights every \<open>W\<^sub>i\<close> is 1.
\<close>

text \<open>Modelled from the spec: ``the governing frequency counter indicates a refit is
  due this step'', never with frequency 0; the counter is the number of generated
  moves.\<close>

definition refit_due :: "engine \<Rightarrow> constraint \<Rightarrow> bool" where
  "refit_due E C =
     (adjustScaleFactorFrequency C \<noteq> 0 \<and>
      generated E mod adjustScaleFactorFrequency C = 0)"

text \<open>Modelled from the spec: the least-squares minimizer, clamped to [min,max]; a zero
  denominator is NumericDegeneracy.\<close>

definition fit_scale_factor :: "constraint \<Rightarrow> vec \<Rightarrow> vec \<Rightarrow> vec option \<Rightarrow> error + real" where
  "fit_scale_factor C Y F W =
     (let w = (case W of None \<Rightarrow> replicate (length F) 1 | Some w \<Rightarrow> w);
          num = sum_list (vmul w (vmul Y F));
          den = sum_list (vmul w (vmul F F))
      in if den = 0 then Inl NumericDegeneracy
         else Inr (min (adjustScaleFactorMaximum C)
                       (max (adjustScaleFactorMinimum C) (num / den))))"

text \<open>Modelled from the spec: the fit when a refit is due, otherwise the accepted scale
  factor, unchanged.\<close>

definition get_adjusted_scale_factor ::
    "engine \<Rightarrow> constraint \<Rightarrow> vec \<Rightarrow> vec \<Rightarrow> vec option \<Rightarrow> error + real" where
  "get_adjusted_scale_factor E C Y F W =
     (if refit_due E C then fit_scale_factor C Y F W else Inr (scaleFactor C))"

subsection \<open>The transform of a histogram into the observable\<close>

text \<open>
  \<^verbatim>\<open>wij = weightingScheme.get(a+"-"+b, None)\<close>, and the reversed key, which
  raises KeyError when it is missing too.
\<close>

definition lookup_wij :: "(string \<rightharpoonup> real) \<Rightarrow> string \<times> string \<Rightarrow> error + real" where
  "lookup_wij ws pair =
     (case ws (fst pair @ ''-'' @ snd pair) of
        Some w \<Rightarrow> Inr w
      | None \<Rightarrow>
          (case ws (snd pair @ ''-'' @ fst pair) of
             Some w \<Rightarrow> Inr w
           | None \<Rightarrow> Inl KeyError))"

text \<open>
  The head of the loop body over \<^verbatim>\<open>elementsPairs\<close>, the same in
  \<^verbatim>\<open>__get_total_Gr\<close>, \<^verbatim>\<open>__get_total_Sq\<close> and \<^verbatim>\<open>_get_constraint_value\<close>:
  the weight, the two populations and the two element indexes.
\<close>

definition pair_inputs ::
    "engine \<Rightarrow> constraint \<Rightarrow> string \<times> string \<Rightarrow> error + (real \<times> int \<times> int \<times> nat \<times> nat)" where
  "pair_inputs E C pair =
     (case lookup_wij (weightingScheme C) pair of Inl e \<Rightarrow> Inl e | Inr wij \<Rightarrow>
      case numberOfAtomsPerElement E (fst pair) of None \<Rightarrow> Inl KeyError | Some ni \<Rightarrow>
      case numberOfAtomsPerElement E (snd pair) of None \<Rightarrow> Inl KeyError | Some nj \<Rightarrow>
      case index_of (elements E) (fst pair) of Inl e \<Rightarrow> Inl e | Inr idi \<Rightarrow>
      case index_of (elements E) (snd pair) of Inl e \<Rightarrow> Inl e | Inr idj \<Rightarrow>
      Inr (wij, ni, nj, idi, idj))"

text \<open>
  The rest of the loop body of \<^verbatim>\<open>__get_total_Gr\<close> and \<^verbatim>\<open>__get_total_Sq\<close>: what
  one element pair adds to \<open>Gr\<close>, \<^verbatim>\<open>wij*nij/Dij\<close>.
\<close>

definition pair_term ::
    "engine \<Rightarrow> constraint \<Rightarrow> pairhist \<Rightarrow> string \<times> string \<Rightarrow> error + vec" where
  "pair_term E C d pair =
     (case pair_inputs E C pair of Inl e \<Rightarrow> Inl e | Inr (wij, ni, nj, idi, idj) \<Rightarrow>
      if idi = idj then
        (let Nij = real_of_int (ni * (ni - 1)) / 2;
             Dij = Nij / volume E
         in case get2 (intra d) idi idj of Inl e \<Rightarrow> Inl e | Inr a \<Rightarrow>
            case get2 (inter d) idi idj of Inl e \<Rightarrow> Inl e | Inr b \<Rightarrow>
            Inr (sdiv (smul wij (vadd a b)) Dij))
      else
        (let Nij = real_of_int (ni * nj);
             Dij = Nij / volume E
         in case get2 (intra d) idi idj of Inl e \<Rightarrow> Inl e | Inr a \<Rightarrow>
            case get2 (intra d) idj idi of Inl e \<Rightarrow> Inl e | Inr a' \<Rightarrow>
            case get2 (inter d) idi idj of Inl e \<Rightarrow> Inl e | Inr b \<Rightarrow>
            case get2 (inter d) idj idi of Inl e \<Rightarrow> Inl e | Inr b' \<Rightarrow>
            Inr (sdiv (smul wij (vadd (vadd (vadd a a') b) b')) Dij)))"

fun accumulate_Gr ::
    "engine \<Rightarrow> constraint \<Rightarrow> pairhist \<Rightarrow> (string \<times> string) list \<Rightarrow> vec \<Rightarrow> error + vec" where
  "accumulate_Gr E C d [] Gr = Inr Gr"
| "accumulate_Gr E C d (pair # ps) Gr =
     (case pair_term E C d pair of
        Inl e \<Rightarrow> Inl e
      | Inr t \<Rightarrow> accumulate_Gr E C d ps (vadd Gr t))"

text \<open>\<^verbatim>\<open>(4.*PI*shellCenters*rho0)*(Gr-1)\<close>\<close>

definition total_Gr :: "env \<Rightarrow> constraint \<Rightarrow> real \<Rightarrow> vec \<Rightarrow> vec" where
  "total_Gr V C rho0 Gr =
     vmul (map (\<lambda>r. 4 * PI V * r * rho0) (shellCenters C)) (map (\<lambda>g. g - 1) Gr)"

text \<open>
  \<^verbatim>\<open>__get_total_Gr\<close>. The method assigns \<^verbatim>\<open>self._fittedScaleFactor\<close> on its way,
  so the model returns the constraint with the result; an exception leaves the
  constraint as it is at the raise.
\<close>

definition get_total_Gr ::
    "env \<Rightarrow> engine \<Rightarrow> constraint \<Rightarrow> pairhist \<Rightarrow> real \<Rightarrow> constraint \<times> (error + vec)" where
  "get_total_Gr V E C d rho0 =
     (case accumulate_Gr E C d (elementsPairs C) (zeros (histogramSize C)) of
        Inl e \<Rightarrow> (C, Inl e)
      | Inr Gr0 \<Rightarrow>
          (let Gr1 = vdiv Gr0 (shellVolumes C);
               Gr2 = total_Gr V C rho0 Gr1;
               Gr3 = (case shapeArray C of None \<Rightarrow> Gr2 | Some s \<Rightarrow> vsub Gr2 s)
           in case get_adjusted_scale_factor E C (experimentalPDF C) Gr3 (usedDataWeights C) of
                Inl e \<Rightarrow> (C, Inl e)
              | Inr sf \<Rightarrow>
                  (let C' = C\<lparr>fittedScaleFactor := sf\<rparr>;
                       Gr4 = (if sf \<noteq> 1 then smul sf Gr3 else Gr3)
                   in case windowFunction C' of
                        None \<Rightarrow> (C', Inr Gr4)
                      | Some w \<Rightarrow> (C', convolve_same Gr4 w))))"

text \<open>\<^verbatim>\<open>__get_total_Sq\<close>: no shape function, the sine transform, and the scale
  factor multiplied in unconditionally.\<close>

definition get_total_Sq ::
    "env \<Rightarrow> engine \<Rightarrow> constraint \<Rightarrow> pairhist \<Rightarrow> real \<Rightarrow> constraint \<times> (error + vec)" where
  "get_total_Sq V E C d rho0 =
     (case accumulate_Gr E C d (elementsPairs C) (zeros (histogramSize C)) of
        Inl e \<Rightarrow> (C, Inl e)
      | Inr Gr0 \<Rightarrow>
          (let Gr1 = vdiv Gr0 (shellVolumes C);
               Gr2 = total_Gr V C rho0 Gr1;
               Sq = get_Sq_from_Gr V (cls C) C Gr2
           in case get_adjusted_scale_factor E C (experimentalPDF C) Sq (usedDataWeights C) of
                Inl e \<Rightarrow> (C, Inl e)
              | Inr sf \<Rightarrow>
                  (let C' = C\<lparr>fittedScaleFactor := sf\<rparr>;
                       Sq' = smul sf Sq
                   in case windowFunction C' of
                        None \<Rightarrow> (C', Inr Sq')
                      | Some w \<Rightarrow> (C', convolve_same Sq' w))))"

text \<open>The call \<^verbatim>\<open>self.__get_total_Gr(...)\<close> or \<^verbatim>\<open>self.__get_total_Sq(...)\<close> of the
  life cycle methods, by the class of the instance.\<close>

definition get_total ::
    "env \<Rightarrow> engine \<Rightarrow> constraint \<Rightarrow> pairhist \<Rightarrow> real \<Rightarrow> constraint \<times> (error + vec)" where
  "get_total V E C d rho0 =
     (case cls C of
        PairDistributionConstraint \<Rightarrow> get_total_Gr V E C d rho0
      | _ \<Rightarrow> get_total_Sq V E C d rho0)"

text \<open>\<^verbatim>\<open>compute_standard_error\<close>: the weighted sum of squared deviations.\<close>

definition compute_standard_error :: "constraint \<Rightarrow> vec \<Rightarrow> real" where
  "compute_standard_error C modelData =
     (let diff = vsub (experimentalPDF C) modelData
      in case usedDataWeights C of
           None \<Rightarrow> sum_list (map (\<lambda>x. x\<^sup>2) diff)
         | Some w \<Rightarrow> sum_list (vmul w (map (\<lambda>x. x\<^sup>2) diff)))"

subsection \<open>The dictionary of partial and total observables\<close>

definition cls_prefix :: "cls \<Rightarrow> string" where
  "cls_prefix k = (case k of PairDistributionConstraint \<Rightarrow> ''rdf'' | _ \<Rightarrow> ''sf'')"

text \<open>\<^verbatim>\<open>"rdf_intra_%s-%s" % pair\<close> and its like.\<close>

definition out_key :: "string \<Rightarrow> string \<Rightarrow> string \<times> string \<Rightarrow> string" where
  "out_key p part pair = p @ ''_'' @ part @ ''_'' @ fst pair @ ''-'' @ snd pair"

text \<open>The first loop of \<^verbatim>\<open>_get_constraint_value\<close>: three zero arrays per pair.\<close>

fun init_output ::
    "string \<Rightarrow> nat \<Rightarrow> (string \<times> string) list \<Rightarrow> (string \<rightharpoonup> vec) \<Rightarrow> (string \<rightharpoonup> vec)" where
  "init_output p n [] out = out"
| "init_output p n (pair # ps) out =
     init_output p n ps
       (out(out_key p ''intra'' pair \<mapsto> zeros n,
            out_key p ''inter'' pair \<mapsto> zeros n,
            out_key p ''total'' pair \<mapsto> zeros n))"

text \<open>
  The counts one pair adds to its intra and inter entries, with \<^verbatim>\<open>Nij\<close>: the
  \<^verbatim>\<open>if idi == idj\<close> of the second loop.
\<close>

definition pair_counts ::
    "pairhist \<Rightarrow> int \<Rightarrow> int \<Rightarrow> nat \<Rightarrow> nat \<Rightarrow> error + (real \<times> vec \<times> vec)" where
  "pair_counts d ni nj idi idj =
     (if idi = idj then
        (case get2 (intra d) idi idj of Inl e \<Rightarrow> Inl e | Inr a \<Rightarrow>
         case get2 (inter d) idi idj of Inl e \<Rightarrow> Inl e | Inr b \<Rightarrow>
         Inr (real_of_int (ni * (ni - 1)) / 2, a, b))
      else
        (case get2 (intra d) idi idj of Inl e \<Rightarrow> Inl e | Inr a \<Rightarrow>
         case get2 (intra d) idj idi of Inl e \<Rightarrow> Inl e | Inr a' \<Rightarrow>
         case get2 (inter d) idi idj of Inl e \<Rightarrow> Inl e | Inr b \<Rightarrow>
         case get2 (inter d) idj idi of Inl e \<Rightarrow> Inl e | Inr b' \<Rightarrow>
         Inr (real_of_int (ni * nj), vadd a a', vadd b b')))"

text \<open>The body of the second loop: the pair's three entries and its share of \<open>gr\<close>.\<close>

definition value_step ::
    "env \<Rightarrow> engine \<Rightarrow> constraint \<Rightarrow> pairhist \<Rightarrow> string \<times> string \<Rightarrow>
     (string \<rightharpoonup> vec) \<times> vec \<Rightarrow> error + ((string \<rightharpoonup> vec) \<times> vec)" where
  "value_step V E C d pair acc =
     (case pair_inputs E C pair of Inl e \<Rightarrow> Inl e | Inr (wij, ni, nj, idi, idj) \<Rightarrow>
      let out = fst acc; gr = snd acc;
          ki = out_key (cls_prefix (cls C)) ''intra'' pair;
          ke = out_key (cls_prefix (cls C)) ''inter'' pair;
          kt = out_key (cls_prefix (cls C)) ''total'' pair
      in case out ki of None \<Rightarrow> Inl KeyError | Some oi \<Rightarrow>
         case out ke of None \<Rightarrow> Inl KeyError | Some oe \<Rightarrow>
         case pair_counts d ni nj idi idj of Inl e \<Rightarrow> Inl e | Inr (Nij, a, b) \<Rightarrow>
         let ri = vadd oi a; re = vadd oe b;
             nij = vadd ri re;
             dij = vdiv nij (shellVolumes C);
             Dij = Nij / volume E;
             gr' = vadd gr (sdiv (smul wij dij) Dij);
             intensityFactor = map (\<lambda>v. (volume E * wij) / (Nij * v)) (shellVolumes C);
             pin = vmul ri intensityFactor;
             pex = vmul re intensityFactor;
             ptot = vadd pin pex
         in (case cls C of
               PairDistributionConstraint \<Rightarrow>
                 Inr (out(ki \<mapsto> pin, ke \<mapsto> pex, kt \<mapsto> ptot), gr')
             | _ \<Rightarrow>
                 Inr (out(ki \<mapsto> get_Sq_from_Gr V (cls C) C pin,
                          ke \<mapsto> get_Sq_from_Gr V (cls C) C pex,
                          kt \<mapsto> get_Sq_from_Gr V (cls C) C ptot), gr')))"

fun value_loop ::
    "env \<Rightarrow> engine \<Rightarrow> constraint \<Rightarrow> pairhist \<Rightarrow> (string \<times> string) list \<Rightarrow>
     (string \<rightharpoonup> vec) \<times> vec \<Rightarrow> error + ((string \<rightharpoonup> vec) \<times> vec)" where
  "value_loop V E C d [] acc = Inr acc"
| "value_loop V E C d (pair # ps) acc =
     (case value_step V E C d pair acc of
        Inl e \<Rightarrow> Inl e
      | Inr acc' \<Rightarrow> value_loop V E C d ps acc')"

text \<open>
  \<^verbatim>\<open>_get_constraint_value\<close> of the two classes. The unconvolved total is stored
  under \<^verbatim>\<open>"pdf_total"\<close> (\<^verbatim>\<open>"sf_total"\<close>), the convolved one under \<^verbatim>\<open>"pdf"\<close>
  (\<^verbatim>\<open>"sf"\<close>).
\<close>

definition total_key :: "cls \<Rightarrow> string" where
  "total_key k = (case k of PairDistributionConstraint \<Rightarrow> ''pdf_total'' | _ \<Rightarrow> ''sf_total'')"

definition smoothed_key :: "cls \<Rightarrow> string" where
  "smoothed_key k = (case k of PairDistributionConstraint \<Rightarrow> ''pdf'' | _ \<Rightarrow> ''sf'')"

definition unconvolved_total :: "env \<Rightarrow> engine \<Rightarrow> constraint \<Rightarrow> vec \<Rightarrow> vec" where
  "unconvolved_total V E C gr =
     (case cls C of
        PairDistributionConstraint \<Rightarrow>
          (let t0 = total_Gr V C (numberDensity E) gr;
               t1 = (case shapeArray C of None \<Rightarrow> t0 | Some s \<Rightarrow> vsub t0 s)
           in if scaleFactor C \<noteq> 1 then smul (scaleFactor C) t1 else t1)
      | _ \<Rightarrow>
          (let rho0 = real_of_int (numberOfAtoms E) / volume E;
               Gr = total_Gr V C rho0 gr
           in smul (scaleFactor C) (get_Sq_from_Gr V (cls C) C Gr)))"

definition priv_get_constraint_value ::
    "env \<Rightarrow> engine \<Rightarrow> constraint \<Rightarrow> pairhist \<Rightarrow> error + (string \<rightharpoonup> vec)" where
  "priv_get_constraint_value V E C d =
     (case value_loop V E C d (elementsPairs C)
             (init_output (cls_prefix (cls C)) (histogramSize C) (elementsPairs C) Map.empty,
              zeros (histogramSize C)) of
        Inl e \<Rightarrow> Inl e
      | Inr (out, gr) \<Rightarrow>
          (let t = unconvolved_total V E C gr;
               out1 = out(total_key (cls C) \<mapsto> t)
           in case windowFunction C of
                None \<Rightarrow> Inr (out1(smoothed_key (cls C) \<mapsto> t))
              | Some w \<Rightarrow>
                  (case convolve_same t w of
                     Inl e \<Rightarrow> Inl e
                   | Inr c \<Rightarrow> Inr (out1(smoothed_key (cls C) \<mapsto> c)))))"

text \<open>\<^verbatim>\<open>get_constraint_value\<close>: the empty dictionary when no data was computed.\<close>

definition get_constraint_value ::
    "env \<Rightarrow> engine \<Rightarrow> constraint \<Rightarrow> error + (string \<rightharpoonup> vec)" where
  "get_constraint_value V E C =
     (case data C of
        None \<Rightarrow> Inr Map.empty
      | Some d \<Rightarrow> priv_get_constraint_value V E C d)"

text \<open>
  \<^verbatim>\<open>compute_and_set_standard_error\<close>: it reads the entry \<^verbatim>\<open>"pdf_total"\<close>
  (\<^verbatim>\<open>"sf_total"\<close>) of the dictionary; a missing key raises KeyError.
\<close>

definition compute_and_set_standard_error ::
    "env \<Rightarrow> engine \<Rightarrow> constraint \<Rightarrow> error + constraint" where
  "compute_and_set_standard_error V E C =
     (case get_constraint_value V E C of
        Inl e \<Rightarrow> Inl e
      | Inr out \<Rightarrow>
          (case out (total_key (cls C)) of
             None \<Rightarrow> Inl KeyError
           | Some tot \<Rightarrow>
               Inr (set_standard_error (Some (compute_standard_error C tot)) C)))"

subsection \<open>The move life cycle\<close>

text \<open>
  The two kernel calls that \<^verbatim>\<open>compute_before_move\<close> and
  \<^verbatim>\<open>compute_after_move\<close> both make on the engine's current coordinates: the
  subset against all atoms, minus the subset against itself.
\<close>

definition move_delta :: "env \<Rightarrow> engine \<Rightarrow> nat list \<Rightarrow> error + pairhist" where
  "move_delta V E relativeIndexes =
     (case multiple_pairs_histograms_coords V relativeIndexes (boxCoordinates E)
             (moleculesIndex E) (elementsIndex E) of
        Inl e \<Rightarrow> Inl e
      | Inr (intraM, interM) \<Rightarrow>
      case take_rows (boxCoordinates E) relativeIndexes of Inl e \<Rightarrow> Inl e | Inr bc \<Rightarrow>
      case take_rows (moleculesIndex E) relativeIndexes of Inl e \<Rightarrow> Inl e | Inr mi \<Rightarrow>
      case take_rows (elementsIndex E) relativeIndexes of Inl e \<Rightarrow> Inl e | Inr ei \<Rightarrow>
      case full_pairs_histograms_coords V bc mi ei of
        Inl e \<Rightarrow> Inl e
      | Inr (intraF, interF) \<Rightarrow>
          Inr \<lparr>intra = arr3_sub intraM intraF, inter = arr3_sub interM interF\<rparr>)"

text \<open>\<^verbatim>\<open>compute_before_move\<close>: an exception is raised before any attribute is
  set.\<close>

definition compute_before_move ::
    "env \<Rightarrow> engine \<Rightarrow> constraint \<Rightarrow> nat list \<Rightarrow> error + constraint" where
  "compute_before_move V E C relativeIndexes =
     (case move_delta V E relativeIndexes of
        Inl e \<Rightarrow> Inl e
      | Inr delta \<Rightarrow>
          Inr (set_active_atoms_data_after_move None
                (set_active_atoms_data_before_move (Some delta) C)))"

text \<open>\<^verbatim>\<open>data - before + after\<close>, for both components.\<close>

definition moved_data :: "pairhist \<Rightarrow> pairhist \<Rightarrow> pairhist \<Rightarrow> pairhist" where
  "moved_data d b a =
     \<lparr>intra = arr3_add (arr3_sub (intra d) (intra b)) (intra a),
      inter = arr3_add (arr3_sub (inter d) (inter b)) (inter a)\<rparr>"

text \<open>
  \<^verbatim>\<open>compute_after_move\<close>. It writes the engine's coordinates, so the model
  returns the engine and the constraint as the call leaves them, with the exception
  raised, if any: \<open>None\<close> is the normal return. There is no \<^verbatim>\<open>try\<close> in the method:
  an exception leaves the state as it is at the raise.
\<close>

definition compute_after_move ::
    "env \<Rightarrow> engine \<Rightarrow> constraint \<Rightarrow> nat list \<Rightarrow> coord list \<Rightarrow>
     engine \<times> constraint \<times> error option" where
  "compute_after_move V E C relativeIndexes movedBoxCoordinates =
     (case take_rows (boxCoordinates E) relativeIndexes of
        Inl e \<Rightarrow> (E, C, Some e)
      | Inr boxData \<Rightarrow>
      case assign_rows (boxCoordinates E) relativeIndexes movedBoxCoordinates of
        Inl e \<Rightarrow> (E, C, Some e)
      | Inr bc \<Rightarrow>
      let E1 = E\<lparr>boxCoordinates := bc\<rparr>
      in case move_delta V E1 relativeIndexes of
           Inl e \<Rightarrow> (E1, C, Some e)
         | Inr delta \<Rightarrow>
      let C1 = set_active_atoms_data_after_move (Some delta) C;
          E2 = E1\<lparr>boxCoordinates := put_rows (boxCoordinates E1) relativeIndexes boxData\<rparr>
      in case data C1 of None \<Rightarrow> (E2, C1, Some TypeError) | Some d \<Rightarrow>
         case activeAtomsDataBeforeMove C1 of None \<Rightarrow> (E2, C1, Some TypeError) | Some b \<Rightarrow>
         case get_total V E2 C1 (moved_data d b delta) (numberDensity E2) of
           (C2, Inl e) \<Rightarrow> (E2, C2, Some e)
         | (C2, Inr tot) \<Rightarrow>
             (E2,
              set_after_move_standard_error (Some (compute_standard_error C2 tot)) C2,
              None))"

text \<open>\<^verbatim>\<open>accept_move\<close>: subscripting a \<^verbatim>\<open>None\<close> attribute raises TypeError, before
  anything is set.\<close>

definition accept_move :: "constraint \<Rightarrow> error + constraint" where
  "accept_move C =
     (case data C of None \<Rightarrow> Inl TypeError | Some d \<Rightarrow>
      case activeAtomsDataBeforeMove C of None \<Rightarrow> Inl TypeError | Some b \<Rightarrow>
      case activeAtomsDataAfterMove C of None \<Rightarrow> Inl TypeError | Some a \<Rightarrow>
      Inr (set_fitted_scale_factor_value (fittedScaleFactor C)
            (set_after_move_standard_error None
              (set_standard_error (afterMoveStandardError C)
                (set_active_atoms_data_after_move None
                  (set_active_atoms_data_before_move None
                    (set_data (Some (moved_data d b a)) C)))))))"

definition reject_move :: "constraint \<Rightarrow> constraint" where
  "reject_move C =
     set_after_move_standard_error None
       (set_active_atoms_data_after_move None
         (set_active_atoms_data_before_move None C))"

subsection \<open>The amputation life cycle\<close>

text \<open>\<^verbatim>\<open>data - before\<close>, for both components.\<close>

definition reduced_data :: "pairhist \<Rightarrow> pairhist \<Rightarrow> pairhist" where
  "reduced_data d b =
     \<lparr>intra = arr3_sub (intra d) (intra b), inter = arr3_sub (inter d) (inter b)\<rparr>"

text \<open>
  \<^verbatim>\<open>compute_as_if_amputated\<close>, with the engine and the constraint it returns
  with. \<^verbatim>\<open>relativeIndex\<close> is an index array, of which the method uses the whole for
  the histogram and the first entry for the element. \<^verbatim>\<open>get_normalized_weighting\<close>
  builds a new dictionary, so the saved weighting scheme is not the one the method
  overwrites. The state an exception leaves behind is not part of the result.
\<close>

definition compute_as_if_amputated ::
    "env \<Rightarrow> engine \<Rightarrow> constraint \<Rightarrow> nat list \<Rightarrow> error + (engine \<times> constraint)" where
  "compute_as_if_amputated V E C relativeIndex =
     (case compute_before_move V E C relativeIndex of Inl e \<Rightarrow> Inl e | Inr C1 \<Rightarrow>
      case data C1 of None \<Rightarrow> Inl TypeError | Some d \<Rightarrow>
      case activeAtomsDataBeforeMove C1 of None \<Rightarrow> Inl TypeError | Some b \<Rightarrow>
      let dat = reduced_data d b;
          weightingScheme0 = weightingScheme C1
      in case relativeIndex of [] \<Rightarrow> Inl IndexError | i # rest \<Rightarrow>
         if \<not> i < length (allElements E) then Inl IndexError else
         let selectedElement = allElements E ! i
         in case numberOfAtomsPerElement E selectedElement of
              None \<Rightarrow> Inl KeyError
            | Some n \<Rightarrow>
         let E1 = E\<lparr>numberOfAtomsPerElement :=
                       (numberOfAtomsPerElement E)(selectedElement \<mapsto> n - 1)\<rparr>
         in case get_normalized_weighting V (numberOfAtomsPerElement E1) (elementsWeight C1) of
              Inl e \<Rightarrow> Inl e
            | Inr ws \<Rightarrow>
         let C2 = C1\<lparr>weightingScheme := ws\<rparr>;
             SF = adjustScaleFactorFrequency C2;
             C3 = (if \<not> allowFittingScaleFactor E1
                   then set_adjust_scale_factor_frequency 0 C2 else C2);
             rho0 = real_of_int (numberOfAtoms E1 - 1) / volume E1
         in case get_total V E1 C3 dat rho0 of
              (C4, Inl e) \<Rightarrow> Inl e
            | (C4, Inr tot) \<Rightarrow>
         let stdErr = compute_standard_error C4 tot;
             C5 = (if \<not> allowFittingScaleFactor E1
                   then set_adjust_scale_factor_frequency SF C4 else C4);
             C6 = set_active_atoms_data_before_move None C5;
             C7 = set_amputation_data (Some (dat, weightingScheme C6)) C6;
             C8 = set_amputation_standard_error (Some stdErr) C7;
             C9 = C8\<lparr>weightingScheme := weightingScheme0\<rparr>
         in case numberOfAtomsPerElement E1 selectedElement of
              None \<Rightarrow> Inl KeyError
            | Some m \<Rightarrow>
                Inr (E1\<lparr>numberOfAtomsPerElement :=
                          (numberOfAtomsPerElement E1)(selectedElement \<mapsto> m + 1)\<rparr>,
                     C9))"

definition accept_amputation :: "constraint \<Rightarrow> error + constraint" where
  "accept_amputation C =
     (case amputationData C of
        None \<Rightarrow> Inl TypeError
      | Some (dat, ws) \<Rightarrow>
          Inr (set_fitted_scale_factor_value (fittedScaleFactor C)
                (set_amputation_standard_error None
                  (set_amputation_data None
                    (set_standard_error (amputationStandardError C)
                      ((set_data (Some dat) C)\<lparr>weightingScheme := ws\<rparr>))))))"

definition reject_amputation :: "constraint \<Rightarrow> constraint" where
  "reject_amputation C =
     set_amputation_standard_error None (set_amputation_data None C)"

subsection \<open>Runs of the move life cycle\<close>

text \<open>
  The engine's accept loop is outside the two files. A run is any sequence of the four
  life cycle calls, interleaved with the engine counting a generated move. An exception
  ends the run with the state it leaves behind, as it ends the Python program (the spec
  calls every error fatal).
\<close>

datatype move_op =
    Generate
  | BeforeMove "nat list"
  | AfterMove "nat list" "coord list"
  | AcceptMove
  | RejectMove

fun step ::
    "env \<Rightarrow> move_op \<Rightarrow> engine \<times> constraint \<Rightarrow> (engine \<times> constraint) \<times> error option" where
  "step V Generate (E, C) = ((E\<lparr>generated := Suc (generated E)\<rparr>, C), None)"
| "step V (BeforeMove idx) (E, C) =
     (case compute_before_move V E C idx of
        Inl e \<Rightarrow> ((E, C), Some e)
      | Inr C' \<Rightarrow> ((E, C'), None))"
| "step V (AfterMove idx moved) (E, C) =
     (case compute_after_move V E C idx moved of (E', C', r) \<Rightarrow> ((E', C'), r))"
| "step V AcceptMove (E, C) =
     (case accept_move C of
        Inl e \<Rightarrow> ((E, C), Some e)
      | Inr C' \<Rightarrow> ((E, C'), None))"
| "step V RejectMove (E, C) = ((E, reject_move C), None)"

fun run ::
    "env \<Rightarrow> move_op list \<Rightarrow> engine \<times> constraint \<Rightarrow> (engine \<times> constraint) \<times> error option" where
  "run V [] s = (s, None)"
| "run V (x # xs) s =
     (case step V x s of
        (s', Some e) \<Rightarrow> (s', Some e)
      | (s', None) \<Rightarrow> run V xs s')"

subsection \<open>The spec's reading of a histogram\<close>



subsection \<open>A small configuration\<close>

text \<open>
  Three atoms of one element in a unit box, two distance bins. The kernels stand in for
  the compiled ones, which are parameters of the model: the subset-against-all kernel
  raises on a coordinate outside the unit box (the spec's kernel rejects what it cannot
  bin: mismatched array lengths, NaN or negative distances) and otherwise counts, per
  bin, the selected atoms left and right of \<open>x = 1/2\<close>; the subset-against-itself
  kernel finds no pair. \<open>PI\<close> is the single precision value of
  \<open>\<pi>\<close>, \<^verbatim>\<open>np.float32(np.pi)\<close>.
\<close>

definition in_unit_box :: "coord \<Rightarrow> bool" where
  "in_unit_box c =
     (case c of (x, y, z) \<Rightarrow> 0 \<le> x \<and> x < 1 \<and> 0 \<le> y \<and> y < 1 \<and> 0 \<le> z \<and> z < 1)"

definition ex_multiple ::
    "nat list \<Rightarrow> coord list \<Rightarrow> int list \<Rightarrow> int list \<Rightarrow> error + (arr3 \<times> arr3)" where
  "ex_multiple idx coords mi ei =
     (if \<not> list_all in_unit_box coords then Inl KernelError
      else case take_rows coords idx of
             Inl e \<Rightarrow> Inl e
           | Inr rows \<Rightarrow>
               Inr ([[[0, 0]]],
                    [[[real (length (filter (\<lambda>c. fst c < 1/2) rows)),
                       real (length (filter (\<lambda>c. \<not> fst c < 1/2) rows))]]]))"

definition ex_full :: "coord list \<Rightarrow> int list \<Rightarrow> int list \<Rightarrow> error + (arr3 \<times> arr3)" where
  "ex_full coords mi ei = Inr ([[[0, 0]]], [[[0, 0]]])"

definition V0 :: env where
  "V0 = \<lparr>PI = 13176795 / 4194304,
         FLOAT_TYPE = float32,
         multiple_pairs_histograms_coords = ex_multiple,
         full_pairs_histograms_coords = ex_full,
         get_normalized_weighting = (\<lambda>numbers weights. Inr [''A-A'' \<mapsto> 1])\<rparr>"

definition E0 :: engine where
  "E0 = \<lparr>boxCoordinates = [(0, 0, 0), (1/4, 0, 0), (3/4, 0, 0)],
         moleculesIndex = [0, 1, 2],
         elementsIndex = [0, 0, 0],
         elements = [''A''],
         allElements = [''A'', ''A'', ''A''],
         numberOfAtomsPerElement = [''A'' \<mapsto> 3],
         numberOfAtoms = 3,
         volume = 1,
         numberDensity = 3,
         allowFittingScaleFactor = False,
         generated = 0\<rparr>"

definition C0 :: constraint where
  "C0 = \<lparr>cls = PairDistributionConstraint,
         data = Some \<lparr>intra = [[[0, 0]]], inter = [[[2, 1]]]\<rparr>,
         activeAtomsDataBeforeMove = None,
         activeAtomsDataAfterMove = None,
         standardError = None,
         afterMoveStandardError = None,
         amputationData = None,
         amputationStandardError = None,
         scaleFactor = 1,
         fittedScaleFactor = 1,
         adjustScaleFactorFrequency = 0,
         adjustScaleFactorMinimum = 4/5,
         adjustScaleFactorMaximum = 6/5,
         weightingScheme = [''A-A'' \<mapsto> 1],
         elementsWeight = [''A'' \<mapsto> 1],
         elementsPairs = [(''A'', ''A'')],
         histogramSize = 2,
         shellCenters = [1/2, 3/2],
         shellVolumes = [1, 7],
         experimentalPDF = [0, 0],
         usedDataWeights = None,
         shapeArray = None,
         windowFunction = Some [1/2, 1/2],
         Gr2SqMatrix = [[1, 0], [0, 1]]\<rparr>"




text \<open>
  A structure factor instance of the same configuration. Its matrix, the unit matrix,
  hands every entry of \<open>Gr\<close> through to the sum, so that the sum is exact in single
  precision as well.
\<close>

definition C_sq :: constraint where
  "C_sq = C0\<lparr>cls := StructureFactorConstraint\<rparr>"

text \<open>
  States of one transaction on atom 0, which moves from \<open>x = 0\<close> to \<open>x = 7/8\<close>: after
  \<^verbatim>\<open>compute_before_move\<close>, after \<^verbatim>\<open>compute_after_move\<close>, and the state after
  \<^verbatim>\<open>compute_as_if_amputated\<close> on the same atom.
\<close>

definition C1ex :: constraint where
  "C1ex = C0\<lparr>activeAtomsDataBeforeMove := Some \<lparr>intra = [[[0, 0]]], inter = [[[1, 0]]]\<rparr>\<rparr>"

definition C2ex :: constraint where
  "C2ex = C1ex\<lparr>activeAtomsDataAfterMove := Some \<lparr>intra = [[[0, 0]]], inter = [[[0, 1]]]\<rparr>,
               afterMoveStandardError := Some (909289450933994925 / 862017116176384)\<rparr>"

definition C_amp :: constraint where
  "C_amp = C0\<lparr>amputationData :=
                Some (\<lparr>intra = [[[0, 0]]], inter = [[[1, 1]]]\<rparr>, [''A-A'' \<mapsto> 1]),
              amputationStandardError := Some (14063862044234025 / 53876069761024)\<rparr>"

text \<open>
  One whole transaction on atom 0 as a run, and the configuration with an initial scale
  factor of 2, outside the adjustment bounds \<open>[4/5, 6/5]\<close>, which the constructor
  accepts: ``If adjustScaleFactor first item (frequency) is 0, the scale factor will
  remain untouched and the limits minimum and maximum won't be checked.''
\<close>

definition ex_ops :: "move_op list" where
  "ex_ops = [Generate, BeforeMove [0], AfterMove [0] [(7/8, 0, 0)], AcceptMove]"

definition C_bad :: constraint where
  "C_bad = C0\<lparr>scaleFactor := 2, fittedScaleFactor := 2\<rparr>"

section \<open>Theorems\<close>

subsection \<open>Auxiliary facts\<close>

lemmas array_defs =
  vadd_def vsub_def vmul_def vdiv_def smul_def sdiv_def zeros_def arr3_sub_def arr3_add_def
  get2_def conv_full_def convolve_same_def

lemmas ex_defs = V0_def E0_def C0_def ex_multiple_def ex_full_def in_unit_box_def

lemma length_put_rows: "length (put_rows xs js vs) = length xs"
  by (induction xs js vs rule: put_rows.induct) simp_all

lemma take_rows_Inr:
  "take_rows xs js = Inr ys \<Longrightarrow> ys = map (nth xs) js \<and> list_all (\<lambda>i. i < length xs) js"
  by (induction js arbitrary: ys) (auto split: if_splits sum.splits)

lemma put_rows_nth_other:
  "j \<notin> set js \<Longrightarrow> put_rows zs js vs ! j = zs ! j"
  by (induction zs js vs rule: put_rows.induct) auto

lemma put_rows_nth_restore:
  "list_all (\<lambda>i. i < length zs) js \<Longrightarrow> j < length zs \<Longrightarrow>
   put_rows zs js (map (nth xs) js) ! j = (if j \<in> set js then xs ! j else zs ! j)"
proof (induction js arbitrary: zs)
  case Nil
  then show ?case by simp
next
  case (Cons i js)
  then show ?case by (auto simp: nth_list_update)
qed

text \<open>Writing the saved rows back undoes any write at the same indexes, repeated
  indexes included.\<close>

lemma put_rows_restore:
  assumes "take_rows xs js = Inr ys"
  shows "put_rows (put_rows xs js vs) js ys = xs"
proof (rule nth_equalityI)
  show "length (put_rows (put_rows xs js vs) js ys) = length xs"
    by (simp add: length_put_rows)
next
  fix j
  assume "j < length (put_rows (put_rows xs js vs) js ys)"
  then have j: "j < length xs" by (simp add: length_put_rows)
  from assms have ys: "ys = map (nth xs) js" and ok: "list_all (\<lambda>i. i < length xs) js"
    using take_rows_Inr by blast+
  have "put_rows (put_rows xs js vs) js (map (nth xs) js) ! j =
        (if j \<in> set js then xs ! j else put_rows xs js vs ! j)"
    using ok j by (intro put_rows_nth_restore) (simp_all add: length_put_rows)
  then show "put_rows (put_rows xs js vs) js ys ! j = xs ! j"
    by (simp add: ys put_rows_nth_other)
qed

text \<open>The transform writes one attribute of the constraint, the fitted scale factor.\<close>

lemma get_total_Gr_frame:
  "fst (get_total_Gr V E C d rho0) =
     C\<lparr>fittedScaleFactor := fittedScaleFactor (fst (get_total_Gr V E C d rho0))\<rparr>"
  by (simp add: get_total_Gr_def Let_def split: sum.splits option.splits)

lemma get_total_Sq_frame:
  "fst (get_total_Sq V E C d rho0) =
     C\<lparr>fittedScaleFactor := fittedScaleFactor (fst (get_total_Sq V E C d rho0))\<rparr>"
  by (simp add: get_total_Sq_def Let_def split: sum.splits option.splits)

lemma get_total_frame:
  "fst (get_total V E C d rho0) =
     C\<lparr>fittedScaleFactor := fittedScaleFactor (fst (get_total V E C d rho0))\<rparr>"
  unfolding get_total_def
  using get_total_Gr_frame [of V E C d rho0] get_total_Sq_frame [of V E C d rho0]
  by (cases "cls C") simp_all

lemma get_total_frameD:
  "get_total V E C d rho0 = (C', r) \<Longrightarrow> C' = C\<lparr>fittedScaleFactor := fittedScaleFactor C'\<rparr>"
  using get_total_frame [of V E C d rho0] by simp

lemma compute_before_move_frame:
  "compute_before_move V E C idx = Inr C1 \<Longrightarrow>
   \<exists>b. move_delta V E idx = Inr b \<and>
       C1 = C\<lparr>activeAtomsDataBeforeMove := Some b, activeAtomsDataAfterMove := None\<rparr>"
  by (auto simp: compute_before_move_def setters split: sum.splits)

lemma compute_after_move_frame:
  assumes "compute_after_move V E C idx moved = (E', C', None)"
  shows "\<exists>a sf se. C' = C\<lparr>activeAtomsDataAfterMove := Some a, fittedScaleFactor := sf,
                            afterMoveStandardError := Some se\<rparr>"
proof -
  from assms obtain a Ex dx rho C2 tot where
    g: "get_total V Ex (C\<lparr>activeAtomsDataAfterMove := Some a\<rparr>) dx rho = (C2, Inr tot)"
    and C': "C' = C2\<lparr>afterMoveStandardError := Some (compute_standard_error C2 tot)\<rparr>"
    by (auto simp: compute_after_move_def Let_def setters
             split: option.splits prod.splits sum.splits)
  define sf where "sf = fittedScaleFactor C2"
  define se where "se = compute_standard_error C2 tot"
  from get_total_frameD [OF g]
  have "C2 = C\<lparr>activeAtomsDataAfterMove := Some a, fittedScaleFactor := sf\<rparr>"
    by (simp add: sf_def)
  then have "C2\<lparr>afterMoveStandardError := Some se\<rparr> =
             C\<lparr>activeAtomsDataAfterMove := Some a, fittedScaleFactor := sf,
               afterMoveStandardError := Some se\<rparr>"
    by simp
  with C' show ?thesis unfolding se_def by blast
qed

text \<open>An exception of the histogram computation, raised between the write of the
  candidate coordinates and the write-back, ends the call with the candidate coordinates
  in the engine's store, whatever the kernel and the configuration.\<close>

lemma compute_after_move_raise_in_scope:
  assumes "take_rows (boxCoordinates E) idx = Inr boxData"
      and "assign_rows (boxCoordinates E) idx moved = Inr bc"
      and "move_delta V (E\<lparr>boxCoordinates := bc\<rparr>) idx = Inl e"
  shows "compute_after_move V E C idx moved = (E\<lparr>boxCoordinates := bc\<rparr>, C, Some e)"
  using assms by (simp add: compute_after_move_def)

text \<open>What a returning \<^verbatim>\<open>compute_as_if_amputated\<close> has computed and left behind.\<close>

lemma compute_as_if_amputated_char:
  assumes "compute_as_if_amputated V E C idx = Inr (E', C')"
  shows "\<exists>d b i rest n ws C4 tot.
           data C = Some d \<and> move_delta V E idx = Inr b \<and> idx = i # rest \<and>
           i < length (allElements E) \<and>
           numberOfAtomsPerElement E (allElements E ! i) = Some n \<and>
           get_normalized_weighting V
             ((numberOfAtomsPerElement E)(allElements E ! i \<mapsto> n - 1)) (elementsWeight C) = Inr ws \<and>
           get_total V
             (E\<lparr>numberOfAtomsPerElement := (numberOfAtomsPerElement E)(allElements E ! i \<mapsto> n - 1)\<rparr>)
             (C\<lparr>activeAtomsDataBeforeMove := Some b, activeAtomsDataAfterMove := None,
                weightingScheme := ws,
                adjustScaleFactorFrequency :=
                  (if allowFittingScaleFactor E then adjustScaleFactorFrequency C else 0)\<rparr>)
             (reduced_data d b) (real_of_int (numberOfAtoms E - 1) / volume E) = (C4, Inr tot) \<and>
           E' = E \<and>
           C' = C\<lparr>activeAtomsDataBeforeMove := None, activeAtomsDataAfterMove := None,
                  fittedScaleFactor := fittedScaleFactor C4,
                  amputationData := Some (reduced_data d b, ws),
                  amputationStandardError := Some (compute_standard_error C tot)\<rparr>"
proof -
  from assms obtain C1 where C1: "compute_before_move V E C idx = Inr C1"
    by (auto simp: compute_as_if_amputated_def split: sum.splits)
  from compute_before_move_frame [OF C1] obtain b where
    b: "move_delta V E idx = Inr b" and
    C1': "C1 = C\<lparr>activeAtomsDataBeforeMove := Some b, activeAtomsDataAfterMove := None\<rparr>"
    by blast
  from assms C1 obtain d where d: "data C = Some d"
    by (auto simp: compute_as_if_amputated_def C1' split: option.splits)
  from assms C1 d obtain i rest where idx: "idx = i # rest" and i: "i < length (allElements E)"
    by (auto simp: compute_as_if_amputated_def C1' Let_def split: list.splits if_splits)
  define el where "el = allElements E ! i"
  from assms C1 d idx i obtain n where n: "numberOfAtomsPerElement E el = Some n"
    by (auto simp: compute_as_if_amputated_def C1' Let_def el_def split: option.splits)
  define E1 where "E1 = E\<lparr>numberOfAtomsPerElement := (numberOfAtomsPerElement E)(el \<mapsto> n - 1)\<rparr>"
  from assms C1 d idx i n obtain ws where
    ws: "get_normalized_weighting V ((numberOfAtomsPerElement E)(el \<mapsto> n - 1)) (elementsWeight C) = Inr ws"
    by (auto simp: compute_as_if_amputated_def C1' Let_def el_def split: sum.splits)
  define C3 where "C3 = C\<lparr>activeAtomsDataBeforeMove := Some b, activeAtomsDataAfterMove := None,
                weightingScheme := ws,
                adjustScaleFactorFrequency :=
                  (if allowFittingScaleFactor E then adjustScaleFactorFrequency C else 0)\<rparr>"
  define rho0 where "rho0 = real_of_int (numberOfAtoms E - 1) / volume E"
  obtain C4 r where g: "get_total V E1 C3 (reduced_data d b) rho0 = (C4, r)"
    by (cases "get_total V E1 C3 (reduced_data d b) rho0") blast
  define sf where "sf = fittedScaleFactor C4"
  have C4: "C4 = C3\<lparr>fittedScaleFactor := sf\<rparr>"
    using get_total_frameD [OF g] by (simp add: sf_def)
  have upd: "(numberOfAtomsPerElement E)(el \<mapsto> n) = numberOfAtomsPerElement E"
    using n by (rule map_upd_triv)
  have run: "compute_as_if_amputated V E C idx =
     (case r of Inl e \<Rightarrow> Inl e
      | Inr tot \<Rightarrow>
          Inr (E, C\<lparr>activeAtomsDataBeforeMove := None, activeAtomsDataAfterMove := None,
                  fittedScaleFactor := sf,
                  amputationData := Some (reduced_data d b, ws),
                  amputationStandardError := Some (compute_standard_error C tot)\<rparr>))"
  proof (cases "allowFittingScaleFactor E")
    case True
    with g [unfolded E1_def C3_def rho0_def] show ?thesis
      unfolding compute_as_if_amputated_def idx
      by (cases r)
         (simp_all add: C1 [unfolded idx] C1' d i n ws el_def [symmetric] Let_def setters upd
            C4 C3_def compute_standard_error_def split: option.split)
  next
    case False
    with g [unfolded E1_def C3_def rho0_def] show ?thesis
      unfolding compute_as_if_amputated_def idx
      by (cases r)
         (simp_all add: C1 [unfolded idx] C1' d i n ws el_def [symmetric] Let_def setters upd
            C4 C3_def compute_standard_error_def split: option.split)
  qed
  from assms run obtain tot where r: "r = Inr tot" by (cases r) auto
  show ?thesis
    using assms run d b idx i n ws g
    unfolding r el_def E1_def C3_def rho0_def sf_def by auto
qed



lemma get_total_fitted:
  assumes "get_total V E C d rho0 = (C', Inr t)"
  shows "(\<not> refit_due E C \<and> fittedScaleFactor C' = scaleFactor C) \<or>
         (refit_due E C \<and>
          (\<exists>s. fittedScaleFactor C' =
                 min (adjustScaleFactorMaximum C) (max (adjustScaleFactorMinimum C) s)))"
proof (cases "cls C = PairDistributionConstraint")
  case True
  with assms show ?thesis
    by (auto simp: get_total_def get_total_Gr_def get_adjusted_scale_factor_def
                   fit_scale_factor_def Let_def
             split: sum.splits option.splits if_splits)
next
  case False
  with assms show ?thesis
    by (cases "cls C")
       (auto simp: get_total_def get_total_Sq_def get_adjusted_scale_factor_def
                   fit_scale_factor_def Let_def
             split: sum.splits option.splits if_splits)
qed

text \<open>Whatever way \<^verbatim>\<open>compute_after_move\<close> ends, it leaves the accepted scale factor
  and the adjustment policy alone.\<close>

lemma compute_after_move_policy:
  assumes "compute_after_move V E C idx moved = (E', C', r)"
  shows "scaleFactor C' = scaleFactor C \<and>
         adjustScaleFactorFrequency C' = adjustScaleFactorFrequency C \<and>
         adjustScaleFactorMinimum C' = adjustScaleFactorMinimum C \<and>
         adjustScaleFactorMaximum C' = adjustScaleFactorMaximum C \<and>
         generated E' = generated E"
proof -
  have frame: "scaleFactor X = scaleFactor Y \<and>
         adjustScaleFactorFrequency X = adjustScaleFactorFrequency Y \<and>
         adjustScaleFactorMinimum X = adjustScaleFactorMinimum Y \<and>
         adjustScaleFactorMaximum X = adjustScaleFactorMaximum Y"
    if "get_total V Ex Y dx rho = (X, res)" for X Y Ex dx rho res
    by (subst (1 2 3 4) get_total_frameD [OF that]) simp
  from assms show ?thesis
    by (auto simp: compute_after_move_def Let_def setters
             split: option.splits prod.splits sum.splits dest!: frame)
qed

lemma compute_after_move_fitted:
  assumes "compute_after_move V E C idx moved = (E', C', None)"
  shows "activeAtomsDataAfterMove C' \<noteq> None \<and>
         ((\<not> refit_due E C \<and> fittedScaleFactor C' = scaleFactor C) \<or>
          (refit_due E C \<and>
           (\<exists>s. fittedScaleFactor C' =
                  min (adjustScaleFactorMaximum C) (max (adjustScaleFactorMinimum C) s))))"
proof -
  from assms obtain a bc bd dx C2 tot where
    g: "get_total V (E\<lparr>boxCoordinates := put_rows bc idx bd\<rparr>)
          (C\<lparr>activeAtomsDataAfterMove := Some a\<rparr>) dx (numberDensity E) = (C2, Inr tot)"
    and C': "C' = C2\<lparr>afterMoveStandardError := Some (compute_standard_error C2 tot)\<rparr>"
    by (auto simp: compute_after_move_def Let_def setters
             split: option.splits prod.splits sum.splits)
  have after: "activeAtomsDataAfterMove C2 = Some a"
    by (subst get_total_frameD [OF g]) simp
  have due: "refit_due (E\<lparr>boxCoordinates := put_rows bc idx bd\<rparr>)
               (C\<lparr>activeAtomsDataAfterMove := Some a\<rparr>) = refit_due E C"
    by (simp add: refit_due_def)
  from get_total_fitted [OF g] after show ?thesis
    unfolding due by (simp add: C')
qed

lemma clamp_bounds:
  fixes lo hi s :: real
  assumes "lo \<le> hi"
  shows "lo \<le> min hi (max lo s) \<and> min hi (max lo s) \<le> hi"
  using assms by auto

text \<open>One call keeps the scale factor within the bounds, and a returning call keeps the
  staged fitted value within them while an after-move delta is staged.\<close>

lemma step_bounds:
  assumes lohi: "lo \<le> hi"
      and pol: "adjustScaleFactorMinimum C = lo" "adjustScaleFactorMaximum C = hi"
      and sf: "lo \<le> scaleFactor C" "scaleFactor C \<le> hi"
      and fit: "activeAtomsDataAfterMove C = None \<or>
                (lo \<le> fittedScaleFactor C \<and> fittedScaleFactor C \<le> hi)"
      and st: "step V x (E, C) = ((E', C'), r)"
  shows "adjustScaleFactorMinimum C' = lo \<and> adjustScaleFactorMaximum C' = hi \<and>
         lo \<le> scaleFactor C' \<and> scaleFactor C' \<le> hi \<and>
         (r = None \<longrightarrow> activeAtomsDataAfterMove C' = None \<or>
                          (lo \<le> fittedScaleFactor C' \<and> fittedScaleFactor C' \<le> hi))"
proof (cases x)
  case Generate
  with st pol sf fit show ?thesis by auto
next
  case (BeforeMove idx)
  with st pol sf fit show ?thesis
    by (auto simp: setters split: sum.splits dest!: compute_before_move_frame)
next
  case (AfterMove idx moved)
  with st have cam: "compute_after_move V E C idx moved = (E', C', r)"
    by (simp split: prod.splits)
  note keep = compute_after_move_policy [OF cam]
  show ?thesis
  proof (cases r)
    case None
    from compute_after_move_fitted [OF cam [unfolded None]] clamp_bounds [OF lohi]
    have "lo \<le> fittedScaleFactor C' \<and> fittedScaleFactor C' \<le> hi"
      using pol sf by auto
    with keep pol sf show ?thesis by simp
  next
    case (Some e)
    with keep pol sf show ?thesis by simp
  qed
next
  case AcceptMove
  with st pol sf fit show ?thesis
    by (auto simp: accept_move_def setters split: sum.splits option.splits)
next
  case RejectMove
  with st pol sf fit show ?thesis by (auto simp: reject_move_def setters)
qed

lemma run_bounds:
  assumes "lo \<le> hi"
  shows "adjustScaleFactorMinimum C = lo \<Longrightarrow> adjustScaleFactorMaximum C = hi \<Longrightarrow>
         lo \<le> scaleFactor C \<Longrightarrow> scaleFactor C \<le> hi \<Longrightarrow>
         activeAtomsDataAfterMove C = None \<or>
           (lo \<le> fittedScaleFactor C \<and> fittedScaleFactor C \<le> hi) \<Longrightarrow>
         run V ops (E, C) = ((E', C'), r) \<Longrightarrow>
         lo \<le> scaleFactor C' \<and> scaleFactor C' \<le> hi"
proof (induction ops arbitrary: E C)
  case Nil
  then show ?case by simp
next
  case (Cons x xs)
  obtain E1 C1 r1 where st: "step V x (E, C) = ((E1, C1), r1)"
    by (metis surj_pair)
  note sb = step_bounds [OF assms Cons.prems(1-5) st]
  show ?case
  proof (cases r1)
    case None
    with Cons.prems(6) st have "run V xs (E1, C1) = ((E', C'), r)" by simp
    from Cons.IH [OF _ _ _ _ _ this] sb None show ?thesis by simp
  next
    case (Some e)
    with Cons.prems(6) st have "C' = C1" by simp
    with sb show ?thesis by simp
  qed
qed

text \<open>With frequency 0 one call keeps the scale factor, and a returning call keeps the
  staged fitted value equal to it while an after-move delta is staged.\<close>

lemma step_fixed:
  assumes freq: "adjustScaleFactorFrequency C = 0"
      and sf: "scaleFactor C = s0"
      and fit: "activeAtomsDataAfterMove C = None \<or> fittedScaleFactor C = s0"
      and st: "step V x (E, C) = ((E', C'), r)"
  shows "adjustScaleFactorFrequency C' = 0 \<and> scaleFactor C' = s0 \<and>
         (r = None \<longrightarrow> activeAtomsDataAfterMove C' = None \<or> fittedScaleFactor C' = s0)"
proof (cases x)
  case Generate
  with st freq sf fit show ?thesis by auto
next
  case (BeforeMove idx)
  with st freq sf fit show ?thesis
    by (auto simp: setters split: sum.splits dest!: compute_before_move_frame)
next
  case (AfterMove idx moved)
  with st have cam: "compute_after_move V E C idx moved = (E', C', r)"
    by (simp split: prod.splits)
  note keep = compute_after_move_policy [OF cam]
  show ?thesis
  proof (cases r)
    case None
    from compute_after_move_fitted [OF cam [unfolded None]] freq
    have "fittedScaleFactor C' = scaleFactor C"
      by (simp add: refit_due_def)
    with keep freq sf show ?thesis by simp
  next
    case (Some e)
    with keep freq sf show ?thesis by simp
  qed
next
  case AcceptMove
  with st freq sf fit show ?thesis
    by (auto simp: accept_move_def setters split: sum.splits option.splits)
next
  case RejectMove
  with st freq sf fit show ?thesis by (auto simp: reject_move_def setters)
qed

lemma run_fixed:
  "adjustScaleFactorFrequency C = 0 \<Longrightarrow> scaleFactor C = s0 \<Longrightarrow>
   activeAtomsDataAfterMove C = None \<or> fittedScaleFactor C = s0 \<Longrightarrow>
   run V ops (E, C) = ((E', C'), r) \<Longrightarrow> scaleFactor C' = s0"
proof (induction ops arbitrary: E C)
  case Nil
  then show ?case by simp
next
  case (Cons x xs)
  obtain E1 C1 r1 where st: "step V x (E, C) = ((E1, C1), r1)"
    by (metis surj_pair)
  note sb = step_fixed [OF Cons.prems(1-3) st]
  show ?case
  proof (cases r1)
    case None
    with Cons.prems(4) st have "run V xs (E1, C1) = ((E', C'), r)" by simp
    from Cons.IH [OF _ _ _ this] sb None show ?thesis by simp
  next
    case (Some e)
    with Cons.prems(4) st have "C' = C1" by simp
    with sb show ?thesis by simp
  qed
qed

subsection \<open>The small configuration, evaluated\<close>

lemma ex_move_delta: "move_delta V0 E0 [0] = Inr \<lparr>intra = [[[0, 0]]], inter = [[[1, 0]]]\<rparr>"
  by (simp add: move_delta_def ex_defs array_defs)

lemma ex_before: "compute_before_move V0 E0 C0 [0] = Inr C1ex"
  by (simp add: compute_before_move_def ex_move_delta setters C1ex_def C0_def)

lemmas transform_defs =
  get_total_def get_total_Gr_def pair_term_def pair_inputs_def lookup_wij_def total_Gr_def
  get_adjusted_scale_factor_def refit_due_def compute_standard_error_def

lemma ex_after: "compute_after_move V0 E0 C1ex [0] [(7/8, 0, 0)] = (E0, C2ex, None)"
  by (simp add: compute_after_move_def assign_rows_def move_delta_def moved_data_def setters
      transform_defs C2ex_def C1ex_def ex_defs array_defs Let_def power2_eq_square)

lemma ex_after_raises:
  "compute_after_move V0 E0 C1ex [0] [(2, 0, 0)] =
     (E0\<lparr>boxCoordinates := [(2, 0, 0), (1/4, 0, 0), (3/4, 0, 0)]\<rparr>, C1ex, Some KernelError)"
  by (rule compute_after_move_raise_in_scope [where boxData = "[(0, 0, 0)]"])
     (simp_all add: assign_rows_def move_delta_def ex_defs)

lemma ex_amputated: "compute_as_if_amputated V0 E0 C0 [0] = Inr (E0, C_amp)"
  unfolding compute_as_if_amputated_def ex_before sum.case
  by (simp add: reduced_data_def setters
      transform_defs C_amp_def C1ex_def ex_defs array_defs Let_def power2_eq_square)

lemmas value_defs =
  get_constraint_value_def priv_get_constraint_value_def value_step_def pair_counts_def
  pair_inputs_def lookup_wij_def unconvolved_total_def total_Gr_def cls_prefix_def
  out_key_def total_key_def smoothed_key_def compute_and_set_standard_error_def
  compute_standard_error_def

lemma ex_run:
  "run V0 ex_ops (E0, C0) =
     ((E0\<lparr>generated := 1\<rparr>,
       C0\<lparr>data := Some \<lparr>intra = [[[0, 0]]], inter = [[[1, 2]]]\<rparr>,
          standardError := Some (909289450933994925 / 862017116176384)\<rparr>), None)"
  by (simp add: ex_ops_def compute_before_move_def compute_after_move_def accept_move_def
      assign_rows_def move_delta_def moved_data_def setters transform_defs
      ex_defs array_defs Let_def power2_eq_square)

lemma ex_run_bad:
  "run V0 ex_ops (E0, C_bad) =
     ((E0\<lparr>generated := 1\<rparr>,
       C_bad\<lparr>data := Some \<lparr>intra = [[[0, 0]]], inter = [[[1, 2]]]\<rparr>,
          standardError := Some (909289450933994925 / 215504279044096)\<rparr>), None)"
  by (simp add: ex_ops_def C_bad_def compute_before_move_def compute_after_move_def
      accept_move_def assign_rows_def move_delta_def moved_data_def setters transform_defs
      ex_defs array_defs Let_def power2_eq_square)

lemma ex_value:
  "get_constraint_value V0 E0 C0 =
     Inr [''rdf_intra_A-A'' \<mapsto> [0, 0], ''rdf_inter_A-A'' \<mapsto> [2/3, 1/21],
          ''rdf_total_A-A'' \<mapsto> [2/3, 1/21],
          ''pdf_total'' \<mapsto> [- (13176795 / 2097152), - (197651925 / 3670016)],
          ''pdf'' \<mapsto> [- (13176795 / 4194304), - (882845265 / 29360128)]]"
  by (simp add: value_defs ex_defs array_defs Let_def numeral_2_eq_2)

text \<open>Single precision between 1 and 2: the spacing is \<open>2\<^sup>-\<^sup>2\<^sup>3\<close>.\<close>

lemma binade_unit: "1 \<le> x \<Longrightarrow> x < 2 \<Longrightarrow> binade (Suc n) x = 0"
  by simp

lemma float32_unit:
  assumes "1 \<le> x" and "x < 2"
  shows "float32 x = real_of_int (round_half_even (x * 8388608)) / 8388608"
proof -
  have "binade 300 \<bar>x\<bar> = 0"
    using binade_unit [of "\<bar>x\<bar>" 299] assms by simp
  then show ?thesis
    by (simp add: float32_def Let_def)
qed

lemma ex_Gr_dot_matrix: "Gr_dot_matrix C_sq [a, b] = [a, b]"
  by (simp add: Gr_dot_matrix_def sum_axis0_def C_sq_def C0_def array_defs numeral_2_eq_2)

subsection \<open>The claims\<close>

text \<open>
  C1. In a transaction that has both deltas staged, \<^verbatim>\<open>accept_move\<close> returns, sets the
  committed histogram, intra and inter, to the committed data minus the before-move delta
  plus the after-move delta, and clears both deltas.
\<close>

theorem accept_move_commits:
  assumes "data C = Some d"
      and "activeAtomsDataBeforeMove C = Some b"
      and "activeAtomsDataAfterMove C = Some a"
  shows "\<exists>C'. accept_move C = Inr C' \<and>
           data C' = Some \<lparr>intra = arr3_add (arr3_sub (intra d) (intra b)) (intra a),
                           inter = arr3_add (arr3_sub (inter d) (inter b)) (inter a)\<rparr> \<and>
           activeAtomsDataBeforeMove C' = None \<and>
           activeAtomsDataAfterMove C' = None"
  using assms by (simp add: accept_move_def moved_data_def setters)

theorem accept_move_commits_witness:
  "\<exists>C'. accept_move C2ex = Inr C' \<and>
        data C' = Some \<lparr>intra = [[[0, 0]]], inter = [[[1, 2]]]\<rparr> \<and>
        activeAtomsDataBeforeMove C' = None \<and>
        activeAtomsDataAfterMove C' = None"
  using accept_move_commits [of C2ex "\<lparr>intra = [[[0, 0]]], inter = [[[2, 1]]]\<rparr>"
      "\<lparr>intra = [[[0, 0]]], inter = [[[1, 0]]]\<rparr>" "\<lparr>intra = [[[0, 0]]], inter = [[[0, 1]]]\<rparr>"]
  by (simp add: C2ex_def C1ex_def C0_def array_defs)

text \<open>
  C2, as the code has it. \<^verbatim>\<open>compute_after_move\<close> leaves the engine exactly as it
  found it, coordinates included, whenever it returns normally, and also on every
  exception that is raised outside the histogram computation on the candidate
  coordinates: before the coordinates are written (a bad index, a shape mismatch) or
  after they are written back (a missing attribute, the transform, the standard error).
  The method has no \<^verbatim>\<open>try\<close>: the hypothesis cannot be dropped, as the configuration
  after this theorem shows.
\<close>

theorem compute_after_move_restores:
  assumes "snd (snd (compute_after_move V E C idx moved)) = None \<or>
           (\<forall>bc. assign_rows (boxCoordinates E) idx moved = Inr bc \<longrightarrow>
                 (\<exists>delta. move_delta V (E\<lparr>boxCoordinates := bc\<rparr>) idx = Inr delta))"
  shows "fst (compute_after_move V E C idx moved) = E"
proof (cases "take_rows (boxCoordinates E) idx")
  case (Inl e)
  then show ?thesis by (simp add: compute_after_move_def)
next
  case boxData: (Inr boxData)
  show ?thesis
  proof (cases "assign_rows (boxCoordinates E) idx moved")
    case (Inl e)
    with boxData show ?thesis by (simp add: compute_after_move_def)
  next
    case (Inr bc)
    then have bc: "bc = put_rows (boxCoordinates E) idx moved"
      by (simp add: assign_rows_def split: if_splits)
    have restored: "put_rows bc idx boxData = boxCoordinates E"
      unfolding bc using boxData by (rule put_rows_restore)
    show ?thesis
    proof (cases "move_delta V (E\<lparr>boxCoordinates := bc\<rparr>) idx")
      case (Inl e)
      with boxData Inr have "snd (snd (compute_after_move V E C idx moved)) = Some e"
        by (simp add: compute_after_move_def)
      with assms Inl Inr show ?thesis by simp
    next
      case delta: (Inr delta)
      from boxData Inr delta restored show ?thesis
        by (simp add: compute_after_move_def Let_def
                 split: option.splits prod.splits sum.splits)
    qed
  qed
qed

theorem compute_after_move_restores_witness:
  "snd (snd (compute_after_move V0 E0 C1ex [0] [(7/8, 0, 0)])) = None \<and>
   fst (compute_after_move V0 E0 C1ex [0] [(7/8, 0, 0)]) = E0 \<and>
   snd (snd (compute_after_move V0 E0 (C1ex\<lparr>data := None\<rparr>) [0] [(7/8, 0, 0)]))
     = Some TypeError \<and>
   fst (compute_after_move V0 E0 (C1ex\<lparr>data := None\<rparr>) [0] [(7/8, 0, 0)]) = E0"
proof -
  have delta: "move_delta V0 (E0\<lparr>boxCoordinates := [(7/8, 0, 0), (1/4, 0, 0), (3/4, 0, 0)]\<rparr>) [0]
                 = Inr \<lparr>intra = [[[0, 0]]], inter = [[[0, 1]]]\<rparr>"
    by (simp add: move_delta_def ex_defs array_defs)
  have assign: "assign_rows (boxCoordinates E0) [0] [(7/8, 0, 0)]
                  = Inr [(7/8, 0, 0), (1/4, 0, 0), (3/4, 0, 0)]"
    by (simp add: assign_rows_def E0_def)
  have raised: "snd (snd (compute_after_move V0 E0 (C1ex\<lparr>data := None\<rparr>) [0] [(7/8, 0, 0)]))
                  = Some TypeError"
    by (simp add: compute_after_move_def assign delta setters Let_def) (simp add: E0_def)
  from compute_after_move_restores [of V0 E0 C1ex "[0]" "[(7/8, 0, 0)]"]
       compute_after_move_restores [of V0 E0 "C1ex\<lparr>data := None\<rparr>" "[0]" "[(7/8, 0, 0)]"]
  show ?thesis
    by (simp add: ex_after raised assign delta)
qed

text \<open>
  C2, as the claim states it, fails: when the histogram kernel raises on the candidate
  coordinates (here a candidate outside the unit box), the call ends with the candidate
  coordinates still in the engine's store.
\<close>

theorem compute_after_move_keeps_candidate:
  "snd (snd (compute_after_move V0 E0 C1ex [0] [(2, 0, 0)])) = Some KernelError \<and>
   boxCoordinates (fst (compute_after_move V0 E0 C1ex [0] [(2, 0, 0)])) =
     [(2, 0, 0), (1/4, 0, 0), (3/4, 0, 0)] \<and>
   boxCoordinates E0 = [(0, 0, 0), (1/4, 0, 0), (3/4, 0, 0)] \<and>
   fst (compute_after_move V0 E0 C1ex [0] [(2, 0, 0)]) \<noteq> E0"
proof -
  have "boxCoordinates (E0\<lparr>boxCoordinates := [(2, 0, 0), (1/4, 0, 0), (3/4, 0, 0)]\<rparr>)
          \<noteq> boxCoordinates E0"
    by (simp add: E0_def)
  then have "E0\<lparr>boxCoordinates := [(2, 0, 0), (1/4, 0, 0), (3/4, 0, 0)]\<rparr> \<noteq> E0"
    by metis
  then show ?thesis by (simp add: ex_after_raises) (simp add: E0_def)
qed

text \<open>
  C3. After \<^verbatim>\<open>compute_before_move\<close>, \<^verbatim>\<open>compute_after_move\<close> and
  \<^verbatim>\<open>reject_move\<close> the committed histogram and the committed standard error are
  what they were before the transaction; \<^verbatim>\<open>reject_move\<close> itself clears the two
  deltas and the staged after-move standard error and touches nothing else.
\<close>

theorem begin_stage_discard:
  assumes "compute_before_move V E C idx = Inr C1"
      and "compute_after_move V E C1 idx moved = (E2, C2, None)"
  shows "data (reject_move C2) = data C \<and>
         standardError (reject_move C2) = standardError C \<and>
         reject_move C2 = C2\<lparr>activeAtomsDataBeforeMove := None,
                               activeAtomsDataAfterMove := None,
                               afterMoveStandardError := None\<rparr>"
proof -
  from compute_before_move_frame [OF assms(1)] obtain b where
    C1: "C1 = C\<lparr>activeAtomsDataBeforeMove := Some b, activeAtomsDataAfterMove := None\<rparr>"
    by blast
  from compute_after_move_frame [OF assms(2)] obtain a sf se where
    C2: "C2 = C1\<lparr>activeAtomsDataAfterMove := Some a, fittedScaleFactor := sf,
                  afterMoveStandardError := Some se\<rparr>"
    by blast
  show ?thesis by (simp add: C1 C2 reject_move_def setters)
qed

theorem begin_stage_discard_witness:
  "data (reject_move C2ex) = data C0 \<and>
   standardError (reject_move C2ex) = standardError C0 \<and>
   reject_move C2ex = C2ex\<lparr>activeAtomsDataBeforeMove := None,
                             activeAtomsDataAfterMove := None,
                             afterMoveStandardError := None\<rparr>"
  by (rule begin_stage_discard [OF ex_before ex_after])

text \<open>
  C4. \<^verbatim>\<open>compute_as_if_amputated\<close> on one atom followed by \<^verbatim>\<open>reject_amputation\<close>
  leaves the committed histogram, the weighting scheme and the per-element populations
  as they were before the call.
\<close>

theorem amputation_reject_restores:
  assumes "compute_as_if_amputated V E C [i] = Inr (E', C')"
  shows "data (reject_amputation C') = data C \<and>
         weightingScheme (reject_amputation C') = weightingScheme C \<and>
         numberOfAtomsPerElement E' = numberOfAtomsPerElement E"
  using compute_as_if_amputated_char [OF assms]
  by (auto simp: reject_amputation_def setters)

theorem amputation_reject_restores_witness:
  "compute_as_if_amputated V0 E0 C0 [0] = Inr (E0, C_amp) \<and>
   data (reject_amputation C_amp) = data C0 \<and>
   weightingScheme (reject_amputation C_amp) = weightingScheme C0 \<and>
   numberOfAtomsPerElement E0 ''A'' = Some 3"
  using amputation_reject_restores [OF ex_amputated] ex_amputated
  by (simp add: E0_def)

text \<open>
  C5. For one atom \<open>i\<close>, a returning \<^verbatim>\<open>compute_as_if_amputated\<close> has staged: the
  reduced histogram, the committed data minus the before-move delta of the subset
  \<open>[i]\<close>; the weighting scheme computed from the populations with the atom's element
  decremented by one; and the standard error of the observable computed from the reduced
  histogram under that weighting scheme and those populations with
  \<open>\<rho>\<^sub>0 = (N - 1) / V\<close>, with fitting of the scale factor switched off unless the move
  generator allows it. The committed histogram is not changed.
\<close>

theorem amputation_stages_reduced_system:
  assumes "compute_as_if_amputated V E C [i] = Inr (E', C')"
  shows "\<exists>d b n ws C4 tot.
           data C = Some d \<and> move_delta V E [i] = Inr b \<and>
           numberOfAtomsPerElement E (allElements E ! i) = Some n \<and>
           get_normalized_weighting V
             ((numberOfAtomsPerElement E)(allElements E ! i \<mapsto> n - 1)) (elementsWeight C) = Inr ws \<and>
           get_total V
             (E\<lparr>numberOfAtomsPerElement := (numberOfAtomsPerElement E)(allElements E ! i \<mapsto> n - 1)\<rparr>)
             (C\<lparr>activeAtomsDataBeforeMove := Some b, activeAtomsDataAfterMove := None,
                weightingScheme := ws,
                adjustScaleFactorFrequency :=
                  (if allowFittingScaleFactor E then adjustScaleFactorFrequency C else 0)\<rparr>)
             (reduced_data d b) (real_of_int (numberOfAtoms E - 1) / volume E) = (C4, Inr tot) \<and>
           amputationData C' = Some (reduced_data d b, ws) \<and>
           amputationStandardError C' = Some (compute_standard_error C tot) \<and>
           data C' = Some d"
  using compute_as_if_amputated_char [OF assms]
  by (auto simp: reject_amputation_def setters)

theorem amputation_stages_reduced_system_witness:
  "\<exists>d b n ws C4 tot.
     data C0 = Some d \<and> move_delta V0 E0 [0] = Inr b \<and>
     numberOfAtomsPerElement E0 (allElements E0 ! 0) = Some n \<and>
     get_normalized_weighting V0
       ((numberOfAtomsPerElement E0)(allElements E0 ! 0 \<mapsto> n - 1)) (elementsWeight C0) = Inr ws \<and>
     get_total V0
       (E0\<lparr>numberOfAtomsPerElement := (numberOfAtomsPerElement E0)(allElements E0 ! 0 \<mapsto> n - 1)\<rparr>)
       (C0\<lparr>activeAtomsDataBeforeMove := Some b, activeAtomsDataAfterMove := None,
           weightingScheme := ws,
           adjustScaleFactorFrequency :=
             (if allowFittingScaleFactor E0 then adjustScaleFactorFrequency C0 else 0)\<rparr>)
       (reduced_data d b) (real_of_int (numberOfAtoms E0 - 1) / volume E0) = (C4, Inr tot) \<and>
     amputationData C_amp = Some (reduced_data d b, ws) \<and>
     amputationStandardError C_amp = Some (compute_standard_error C0 tot) \<and>
     data C_amp = Some d"
  by (rule amputation_stages_reduced_system [OF ex_amputated])

text \<open>
  C6, as the model has it. Start from a constraint with no after-move delta staged and
  take any run of move evaluations, accepts and rejects, up to its end or to the first
  exception. If the bounds are ordered and the initial scale factor lies within them, the
  scale factor lies within them at the end of the run; if the adjustment frequency is 0,
  the scale factor at the end is the initial one; and when no refit is due, the
  adjustment returns the accepted scale factor unchanged.
\<close>

theorem scale_factor_policy:
  assumes "activeAtomsDataAfterMove C = None"
      and "run V ops (E, C) = ((E', C'), r)"
  shows "(adjustScaleFactorMinimum C \<le> adjustScaleFactorMaximum C \<and>
          adjustScaleFactorMinimum C \<le> scaleFactor C \<and>
          scaleFactor C \<le> adjustScaleFactorMaximum C \<longrightarrow>
            adjustScaleFactorMinimum C \<le> scaleFactor C' \<and>
            scaleFactor C' \<le> adjustScaleFactorMaximum C) \<and>
         (adjustScaleFactorFrequency C = 0 \<longrightarrow> scaleFactor C' = scaleFactor C) \<and>
         (\<not> refit_due E C \<longrightarrow>
            get_adjusted_scale_factor E C Y F W = Inr (scaleFactor C))"
proof (intro conjI impI)
  assume b: "adjustScaleFactorMinimum C \<le> adjustScaleFactorMaximum C \<and>
             adjustScaleFactorMinimum C \<le> scaleFactor C \<and>
             scaleFactor C \<le> adjustScaleFactorMaximum C"
  from run_bounds [of "adjustScaleFactorMinimum C" "adjustScaleFactorMaximum C" C V ops E E' C' r]
    b assms
  show "adjustScaleFactorMinimum C \<le> scaleFactor C'"
    and "scaleFactor C' \<le> adjustScaleFactorMaximum C"
    by simp_all
next
  assume "adjustScaleFactorFrequency C = 0"
  with run_fixed [of C "scaleFactor C" V ops E E' C' r] assms
  show "scaleFactor C' = scaleFactor C" by simp
next
  assume "\<not> refit_due E C"
  then show "get_adjusted_scale_factor E C Y F W = Inr (scaleFactor C)"
    by (simp add: get_adjusted_scale_factor_def)
qed

theorem scale_factor_policy_witness:
  "activeAtomsDataAfterMove C0 = None \<and>
   snd (run V0 ex_ops (E0, C0)) = None \<and>
   adjustScaleFactorMinimum C0 \<le> scaleFactor C0 \<and>
   scaleFactor C0 \<le> adjustScaleFactorMaximum C0 \<and>
   adjustScaleFactorFrequency C0 = 0 \<and>
   \<not> refit_due E0 C0 \<and>
   adjustScaleFactorMinimum C0 \<le> scaleFactor (snd (fst (run V0 ex_ops (E0, C0)))) \<and>
   scaleFactor (snd (fst (run V0 ex_ops (E0, C0)))) \<le> adjustScaleFactorMaximum C0 \<and>
   scaleFactor (snd (fst (run V0 ex_ops (E0, C0)))) = scaleFactor C0 \<and>
   get_adjusted_scale_factor E0 C0 [0, 0] [1, 1] None = Inr 1"
proof -
  have idle: "activeAtomsDataAfterMove C0 = None" by (simp add: C0_def)
  have r: "run V0 ex_ops (E0, C0) =
             ((fst (fst (run V0 ex_ops (E0, C0))), snd (fst (run V0 ex_ops (E0, C0)))),
              snd (run V0 ex_ops (E0, C0)))"
    by simp
  from scale_factor_policy [OF idle r, of "[0, 0]" "[1, 1]" None]
  show ?thesis
    by (simp add: ex_run) (simp add: C0_def refit_due_def)
qed

text \<open>
  C6, as the claim states it, fails: a scale factor that starts outside the bounds stays
  outside them through a whole transaction, since nothing is fitted or clamped when the
  frequency is 0.
\<close>

theorem scale_factor_outside_bounds:
  "activeAtomsDataAfterMove C_bad = None \<and>
   snd (run V0 ex_ops (E0, C_bad)) = None \<and>
   adjustScaleFactorMaximum (snd (fst (run V0 ex_ops (E0, C_bad)))) = 6/5 \<and>
   scaleFactor (snd (fst (run V0 ex_ops (E0, C_bad)))) = 2 \<and>
   \<not> scaleFactor (snd (fst (run V0 ex_ops (E0, C_bad))))
       \<le> adjustScaleFactorMaximum (snd (fst (run V0 ex_ops (E0, C_bad))))"
  by (simp add: ex_run_bad) (simp add: C_bad_def C0_def)

text \<open>
  C7 at a configuration with a window function. \<^verbatim>\<open>compute_and_set_standard_error\<close>
  compares the experimental data with the entry \<^verbatim>\<open>"pdf_total"\<close>, the total before the
  convolution; the convolved total is the entry \<^verbatim>\<open>"pdf"\<close>, and it is the convolved
  total that \<^verbatim>\<open>__get_total_Gr\<close> hands to the standard error in \<^verbatim>\<open>compute_data\<close>
  and \<^verbatim>\<open>compute_after_move\<close>. The two standard errors differ.
\<close>

theorem standard_error_of_unconvolved_total:
  "(case get_constraint_value V0 E0 C0 of Inl e \<Rightarrow> None | Inr out \<Rightarrow> out ''pdf_total'') =
     Some [- (13176795 / 2097152), - (197651925 / 3670016)] \<and>
   (case get_constraint_value V0 E0 C0 of Inl e \<Rightarrow> None | Inr out \<Rightarrow> out ''pdf'') =
     Some [- (13176795 / 4194304), - (882845265 / 29360128)] \<and>
   (case compute_and_set_standard_error V0 E0 C0 of
      Inl e \<Rightarrow> None | Inr C' \<Rightarrow> standardError C') =
     Some (compute_standard_error C0 [- (13176795 / 2097152), - (197651925 / 3670016)]) \<and>
   snd (get_total V0 E0 C0 \<lparr>intra = [[[0, 0]]], inter = [[[2, 1]]]\<rparr> (numberDensity E0)) =
     Inr [- (13176795 / 4194304), - (882845265 / 29360128)] \<and>
   compute_standard_error C0 [- (13176795 / 2097152), - (197651925 / 3670016)] =
     633568303696419225 / 215504279044096 \<and>
   compute_standard_error C0 [- (13176795 / 4194304), - (882845265 / 29360128)] =
     393961765165024725 / 431008558088192"
proof -
  have tot: "snd (get_total V0 E0 C0 \<lparr>intra = [[[0, 0]]], inter = [[[2, 1]]]\<rparr>
                    (numberDensity E0)) =
             Inr [- (13176795 / 4194304), - (882845265 / 29360128)]"
    by (simp add: transform_defs ex_defs array_defs Let_def)
  have se: "compute_standard_error C0 [- (13176795 / 2097152), - (197651925 / 3670016)] =
              633568303696419225 / 215504279044096"
           "compute_standard_error C0 [- (13176795 / 4194304), - (882845265 / 29360128)] =
              393961765165024725 / 431008558088192"
    by (simp_all add: compute_standard_error_def C0_def array_defs power2_eq_square)
  have cs: "(case compute_and_set_standard_error V0 E0 C0 of
               Inl e \<Rightarrow> None | Inr C' \<Rightarrow> standardError C') =
            Some (compute_standard_error C0 [- (13176795 / 2097152), - (197651925 / 3670016)])"
    unfolding compute_and_set_standard_error_def ex_value
    by (simp add: total_key_def setters C0_def)
  show ?thesis
    unfolding ex_value using tot se cs by simp
qed





text \<open>
  C9. On an instance whose data was never computed (\<^verbatim>\<open>data is None\<close>),
  \<^verbatim>\<open>get_constraint_value\<close> returns the empty dictionary: no error, no partial
  result.
\<close>

theorem get_constraint_value_without_data:
  assumes "data C = None"
  shows "get_constraint_value V E C = Inr Map.empty"
  using assms by (simp add: get_constraint_value_def)

theorem get_constraint_value_without_data_witness:
  "get_constraint_value V0 E0 (C0\<lparr>data := None\<rparr>) = Inr Map.empty"
  using get_constraint_value_without_data [of "C0\<lparr>data := None\<rparr>" V0 E0] by simp

text \<open>
  C10, as the code has it. For every real-space array \<open>Gr\<close>, the plain structure factor
  transform is the reduced structure factor transform plus 1 at every reciprocal sample
  point, the sum rounded to the array type as the code computes it; and the reduced
  transform is the plain one minus 1 wherever that addition is exact.
\<close>

theorem Sq_is_reduced_Sq_plus_one:
  "get_Sq_from_Gr V StructureFactorConstraint C Gr =
     map (\<lambda>s. FLOAT_TYPE V (s + 1)) (get_Sq_from_Gr V ReducedStructureFactorConstraint C Gr) \<and>
   (list_all (\<lambda>s. FLOAT_TYPE V (s + 1) = s + 1)
       (get_Sq_from_Gr V ReducedStructureFactorConstraint C Gr) \<longrightarrow>
      get_Sq_from_Gr V ReducedStructureFactorConstraint C Gr =
        map (\<lambda>p. p - 1) (get_Sq_from_Gr V StructureFactorConstraint C Gr))"
proof -
  have exact: "list_all (\<lambda>s. f (s + 1) = s + 1) xs \<Longrightarrow>
               map (\<lambda>p. p - 1) (map (\<lambda>s. f (s + 1)) xs) = xs"
    for f :: "real \<Rightarrow> real" and xs
    by (induction xs) simp_all
  show ?thesis
    by (simp add: get_Sq_from_Gr_def exact del: map_map)
qed

theorem Sq_is_reduced_Sq_plus_one_witness:
  "list_all (\<lambda>s. FLOAT_TYPE V0 (s + 1) = s + 1)
     (get_Sq_from_Gr V0 ReducedStructureFactorConstraint C_sq [1/2, 1/4]) \<and>
   get_Sq_from_Gr V0 ReducedStructureFactorConstraint C_sq [1/2, 1/4] = [1/2, 1/4] \<and>
   get_Sq_from_Gr V0 StructureFactorConstraint C_sq [1/2, 1/4] = [3/2, 5/4] \<and>
   get_Sq_from_Gr V0 ReducedStructureFactorConstraint C_sq [1/2, 1/4] =
     map (\<lambda>p. p - 1) (get_Sq_from_Gr V0 StructureFactorConstraint C_sq [1/2, 1/4])"
proof -
  have red: "get_Sq_from_Gr V0 ReducedStructureFactorConstraint C_sq [1/2, 1/4] = [1/2, 1/4]"
    by (simp add: get_Sq_from_Gr_def ex_Gr_dot_matrix)
  have ex: "list_all (\<lambda>s. FLOAT_TYPE V0 (s + 1) = s + 1) [1/2, 1/4]"
    by (simp add: V0_def float32_unit round_half_even_def)
  from Sq_is_reduced_Sq_plus_one [of V0 C_sq "[1/2, 1/4]"] ex
  show ?thesis
    by (simp add: red)
qed

text \<open>
  C10, as the claim states it, fails in the arithmetic of the code. Where the sum is the
  single precision number next to 0.1, which is 13421773 / 134217728, the plain
  transform returns the single precision number next to 1.1, which is
  9227469 / 8388608, and that minus 1 is 838861 / 8388608, not the sum. Where the sum
  is 1/2 the addition is exact and the two agree.
\<close>

theorem reduced_Sq_is_not_Sq_minus_one:
  "get_Sq_from_Gr V0 ReducedStructureFactorConstraint C_sq [13421773 / 134217728, 1/2] =
     [13421773 / 134217728, 1/2] \<and>
   get_Sq_from_Gr V0 StructureFactorConstraint C_sq [13421773 / 134217728, 1/2] =
     [9227469 / 8388608, 3/2] \<and>
   map (\<lambda>s. s - 1) (get_Sq_from_Gr V0 StructureFactorConstraint C_sq [13421773 / 134217728, 1/2]) =
     [838861 / 8388608, 1/2] \<and>
   get_Sq_from_Gr V0 ReducedStructureFactorConstraint C_sq [13421773 / 134217728, 1/2] \<noteq>
     map (\<lambda>s. s - 1) (get_Sq_from_Gr V0 StructureFactorConstraint C_sq [13421773 / 134217728, 1/2])"
  by (simp add: get_Sq_from_Gr_def ex_Gr_dot_matrix V0_def float32_unit round_half_even_def)

end
